theory Spec2Isabelle
  imports Main "HOL-Library.Sublist"
begin

section \<open>JavaScript primitives used by the scraper\<close>

text \<open>
  Timestamps are milliseconds since the epoch (what \<^verbatim>\<open>Date.getTime()\<close> returns); an
  ISO string made by \<^verbatim>\<open>new Date().toISOString()\<close> and read back with \<^verbatim>\<open>new Date(s)\<close>
  denotes the same number, so \<^verbatim>\<open>scrapedAt\<close> is kept as that number.
\<close>

type_synonym timestamp = int

text \<open>
  \<^verbatim>\<open>Array.prototype.slice(start, end)\<close> on integer arguments: a negative index counts
  from the end of the array, both indices are clamped to \<open>[0, length]\<close>, and an empty
  range gives the empty array.
\<close>

definition js_slice :: "'a list \<Rightarrow> int \<Rightarrow> int \<Rightarrow> 'a list" where
  "js_slice xs start fin =
     (let len = int (length xs);
          k = (if start < 0 then max (len + start) 0 else min start len);
          final = (if fin < 0 then max (len + fin) 0 else min fin len)
      in take (nat (final - k)) (drop (nat k) xs))"

text \<open>\<^verbatim>\<open>String.prototype.includes\<close>: some position of the string starts with the pattern.\<close>

fun includes_str :: "string \<Rightarrow> string \<Rightarrow> bool" where
  "includes_str [] pat = (pat = [])"
| "includes_str (c # cs) pat = (prefix pat (c # cs) \<or> includes_str cs pat)"

text \<open>
  A string is held as its UTF-8 encoding, one \<^typ>\<open>char\<close> per byte (a string with an
  unpaired surrogate has no such encoding and is not considered). Comparing two strings,
  and searching or splitting by an ASCII pattern, are the same on these bytes as on the
  UTF-16 code units that JavaScript sees. \<^verbatim>\<open>length\<close>, \<^verbatim>\<open>trim\<close> and the class \<^verbatim>\<open>\s\<close> are
  not, and are written out here.
\<close>

text \<open>A byte \<open>10xxxxxx\<close> continues a code point; every other byte starts one.\<close>

definition is_continuation :: "char \<Rightarrow> bool" where
  "is_continuation c = (let n = (of_char c :: nat) in 128 \<le> n \<and> n < 192)"

text \<open>
  \<^verbatim>\<open>s.length\<close>, the number of UTF-16 code units: one for each code point, and one more for
  each code point above \<open>U+FFFF\<close> (a surrogate pair), whose encoding starts with a byte from
  \<open>0xF0\<close>.
\<close>

definition js_length :: "string \<Rightarrow> nat" where
  "js_length s =
     length (filter (\<lambda>c. \<not> is_continuation c) s)
     + length (filter (\<lambda>c. 240 \<le> (of_char c :: nat)) s)"

text \<open>
  The code points that ECMAScript counts as white space or line terminator (what
  \<^verbatim>\<open>trim\<close>, \<^verbatim>\<open>\s\<close> and \<^verbatim>\<open>parseInt\<close> skip), each as its UTF-8 encoding: \<open>U+0009\<close> to \<open>U+000D\<close>,
  \<open>U+0020\<close>, \<open>U+00A0\<close>, \<open>U+1680\<close>, \<open>U+2000\<close> to \<open>U+200A\<close>, \<open>U+2028\<close>, \<open>U+2029\<close>, \<open>U+202F\<close>,
  \<open>U+205F\<close>, \<open>U+3000\<close> and \<open>U+FEFF\<close>.
\<close>

definition whiteSpace :: "string list" where
  "whiteSpace =
     [[CHR 0x09], [CHR 0x0A], [CHR 0x0B], [CHR 0x0C], [CHR 0x0D], [CHR 0x20],
      [CHR 0xC2, CHR 0xA0],
      [CHR 0xE1, CHR 0x9A, CHR 0x80],
      [CHR 0xE2, CHR 0x80, CHR 0x80], [CHR 0xE2, CHR 0x80, CHR 0x81],
      [CHR 0xE2, CHR 0x80, CHR 0x82], [CHR 0xE2, CHR 0x80, CHR 0x83],
      [CHR 0xE2, CHR 0x80, CHR 0x84], [CHR 0xE2, CHR 0x80, CHR 0x85],
      [CHR 0xE2, CHR 0x80, CHR 0x86], [CHR 0xE2, CHR 0x80, CHR 0x87],
      [CHR 0xE2, CHR 0x80, CHR 0x88], [CHR 0xE2, CHR 0x80, CHR 0x89],
      [CHR 0xE2, CHR 0x80, CHR 0x8A],
      [CHR 0xE2, CHR 0x80, CHR 0xA8], [CHR 0xE2, CHR 0x80, CHR 0xA9],
      [CHR 0xE2, CHR 0x80, CHR 0xAF],
      [CHR 0xE2, CHR 0x81, CHR 0x9F],
      [CHR 0xE3, CHR 0x80, CHR 0x80],
      [CHR 0xEF, CHR 0xBB, CHR 0xBF]]"

text \<open>
  Taking from the front of a string, as long as there is one, a member of \<open>ws\<close> that the
  string starts with.
\<close>

function strip_prefixes :: "string list \<Rightarrow> string \<Rightarrow> string" where
  "strip_prefixes ws s =
     (case find (\<lambda>w. w \<noteq> [] \<and> prefix w s) ws of
        None \<Rightarrow> s
      | Some w \<Rightarrow> strip_prefixes ws (drop (length w) s))"
  by pat_completeness auto
termination
proof (relation "measure (\<lambda>(ws, s). length s)")
  show "wf (measure (\<lambda>(ws, s). length s))" by simp
next
  fix ws :: "string list" and s w :: string
  assume "find (\<lambda>w. w \<noteq> [] \<and> prefix w s) ws = Some w"
  then have "w \<noteq> []" and "prefix w s" by (auto simp: find_Some_iff)
  then have "0 < length w" and "length w \<le> length s" by (auto simp: prefix_length_le)
  then have "length s - length w < length s" by arith
  then show "((ws, drop (length w) s), (ws, s)) \<in> measure (\<lambda>(ws, s). length s)" by simp
qed

declare strip_prefixes.simps [simp del]

text \<open>
  \<^verbatim>\<open>String.prototype.trim\<close>: the white space is taken from the front, then from the end (a
  string ends with a code point exactly when its reverse starts with the reversed encoding).
\<close>

definition trimStart :: "string \<Rightarrow> string" where
  "trimStart s = strip_prefixes whiteSpace s"

definition trimEnd :: "string \<Rightarrow> string" where
  "trimEnd s = rev (strip_prefixes (map rev whiteSpace) (rev s))"

definition trim :: "string \<Rightarrow> string" where
  "trim s = trimEnd (trimStart s)"

section \<open>Records of the data model (types)\<close>

text \<open>\<^verbatim>\<open>rank: string | number\<close> of \<^verbatim>\<open>interface Product\<close>.\<close>

datatype rank = RankNum int | RankStr string

record Product =
  rank :: rank
  title :: string
  price :: string
  rating :: string
  image' :: "string option"
  link :: "string option"
  source :: string
  scrapedAt :: timestamp
  asin :: "string option"
  availability :: "string option"
  reviewCount :: "string option"
  brand :: "string option"
  features :: "string list option"

text \<open>
  Errors thrown in the repository, one constructor per \<^verbatim>\<open>throw new Error(...)\<close> site that
  the model reaches, and \<open>External\<close> for an error raised by a collaborator
  (puppeteer, https, pg) with its message.
\<close>

datatype error =
    InvalidAmazonUrl
  | NoProductsExtracted
  | NoProductsInHttpResponse
  | NoTitleExtracted
  | NoProductsScraped
  | External string

section \<open>The static sample data\<close>

definition mkFallback :: "timestamp \<Rightarrow> int \<Rightarrow> string \<Rightarrow> string \<Rightarrow> string \<Rightarrow> Product" where
  "mkFallback now r t p rt =
     \<lparr> rank = RankNum r, title = t, price = p, rating = rt, image' = None, link = None,
       source = ''Fallback Data - Amazon Best Sellers'', scrapedAt = now, asin = None,
       availability = None, reviewCount = None, brand = None, features = None \<rparr>"

text \<open>
  The five literal records of \<^verbatim>\<open>getFallbackProducts\<close>. The fourth title holds an en dash
  (written here as its three UTF-8 bytes) and a double quote (\<open>0x22\<close>).
\<close>

definition fallbackProducts :: "timestamp \<Rightarrow> Product list" where
  "fallbackProducts now =
     [ mkFallback now 1
         ''Echo Dot (5th Gen) | Smart speaker with bigger vibrant sound and Alexa''
         ''$49.99'' ''4.7 out of 5 stars'',
       mkFallback now 2 ''Fire TV Stick 4K Max streaming device''
         ''$54.99'' ''4.6 out of 5 stars'',
       mkFallback now 3 ''Apple AirPods (3rd Generation) Wireless Earbuds''
         ''$169.00'' ''4.4 out of 5 stars'',
       mkFallback now 4
         (''Kindle Paperwhite '' @ [CHR 0xE2, CHR 0x80, CHR 0x93] @ '' Now with 6.8''
            @ [CHR 0x22] @ '' display and adjustable warm light'')
         ''$139.99'' ''4.6 out of 5 stars'',
       mkFallback now 5 ''Apple Watch Series 9 [GPS 41mm] Smartwatch''
         ''$329.00'' ''4.5 out of 5 stars'' ]"

text \<open>\<^verbatim>\<open>getFallbackProducts(limit)\<close>: \<^verbatim>\<open>return fallbackProducts.slice(0, limit)\<close>.\<close>

definition getFallbackProducts :: "timestamp \<Rightarrow> int \<Rightarrow> Product list" where
  "getFallbackProducts now limit = js_slice (fallbackProducts now) 0 limit"

section \<open>The page as the in-page extraction sees it\<close>

text \<open>
  A DOM element, reduced to what the extraction callbacks read from it:
  \<^item> \<open>node_id\<close>: the identity of the node (\<^verbatim>\<open>productElements.includes(product)\<close> compares nodes);
  \<^item> \<open>attributes\<close>: the element's own attributes (\<^verbatim>\<open>getAttribute\<close>, \<^verbatim>\<open>dataset\<close>);
  \<^item> \<open>texts\<close>: selector \<open>\<mapsto>\<close> \<^verbatim>\<open>textContent\<close> of \<^verbatim>\<open>element.querySelector(selector)\<close>, no entry when
    nothing matches;
  \<^item> \<open>props\<close>: (selector, property) \<open>\<mapsto>\<close> that property (\<^verbatim>\<open>src\<close>, \<^verbatim>\<open>href\<close>) of the first match.
\<close>

record Element =
  node_id :: nat
  attributes :: "(string \<times> string) list"
  texts :: "(string \<times> string) list"
  props :: "((string \<times> string) \<times> string) list"

text \<open>
  What the three selector methods find in the document at the time of one
  \<^verbatim>\<open>page.evaluate\<close>: the \<^verbatim>\<open>[data-asin]\<close> descendants of each grid row of the card container
  (\<open>None\<close> when the container is absent), all \<^verbatim>\<open>[data-asin]\<close> elements, the best-seller
  face-outs, and the page's clock.
\<close>

record Dom =
  card_rows :: "Element list list option"
  data_asin_elements :: "Element list"
  bestseller_elements :: "Element list"
  page_clock :: timestamp

text \<open>A JavaScript string is truthy when it is not empty; \<^verbatim>\<open>null\<close>/\<^verbatim>\<open>undefined\<close> are falsy.\<close>

fun truthy :: "string option \<Rightarrow> bool" where
  "truthy None = False"
| "truthy (Some s) = (s \<noteq> [])"

text \<open>\<^verbatim>\<open>x || null\<close> on a string: the string when truthy, otherwise nothing.\<close>

definition or_null :: "string option \<Rightarrow> string option" where
  "or_null x = (if truthy x then x else None)"

text \<open>\<^verbatim>\<open>genericProducts.forEach(p => { if (!productElements.includes(p)) productElements.push(p) })\<close>\<close>

definition push_missing :: "Element list \<Rightarrow> Element list \<Rightarrow> Element list" where
  "push_missing acc els =
     foldl (\<lambda>a e. if list_ex (\<lambda>x. node_id x = node_id e) a then a else a @ [e]) acc els"

text \<open>
  Methods 1 to 3 of the scrolling extractions (\<^verbatim>\<open>scrapeTrendingProducts\<close> of the category
  scraper and \<^verbatim>\<open>scrapeProductsWithScrolling\<close>): the generic search runs below 10 elements,
  the best-seller selectors below 5.
\<close>

definition productElements :: "Dom \<Rightarrow> Element list" where
  "productElements doc =
     (let m1 = (case card_rows doc of None \<Rightarrow> [] | Some rows \<Rightarrow> concat rows);
          m2 = (if length m1 < 10 then push_missing m1 (data_asin_elements doc) else m1);
          m3 = (if length m2 < 5 then push_missing m2 (bestseller_elements doc) else m2)
      in m3)"

text \<open>
  The selector cascade of one field: the trimmed text of the first selector whose element
  exists and has a non-empty trimmed \<^verbatim>\<open>textContent\<close>.
\<close>

fun first_text :: "Element \<Rightarrow> string list \<Rightarrow> string option" where
  "first_text el [] = None"
| "first_text el (sel # sels) =
     (case map_of (texts el) sel of
        None \<Rightarrow> first_text el sels
      | Some t \<Rightarrow> if trim t \<noteq> [] then Some (trim t) else first_text el sels)"

definition titleSelectors :: "string list" where
  "titleSelectors =
     [''._cDEzb_p13n-sc-css-line-clamp-3_g3dy1'', ''.p13n-sc-truncate'', ''.s-title'',
      ''.a-size-base-plus'', ''h2 span'', ''h3 span'']"

definition priceSelectors :: "string list" where
  "priceSelectors =
     [''._cDEzb_p13n-sc-price_3mJ9Z'', ''.p13n-sc-price'', ''.a-price .a-offscreen'',
      ''.a-price-whole'']"

definition ratingSelectors :: "string list" where
  "ratingSelectors = [''._cDEzb_p13n-sc-rating_3mJ9Z'', ''.a-icon-star'', ''.a-star-medium'']"

definition enhancedPriceSelectors :: "string list" where
  "enhancedPriceSelectors =
     [''._cDEzb_p13n-sc-price_3mJ9Z'', ''.p13n-sc-price'', ''.a-price-whole'',
      ''.a-price .a-offscreen'']"

text \<open>The regular expression \<^verbatim>\<open>/\/dp\/([A-Z0-9]{10})/\<close>: its first capture at the leftmost match.\<close>

definition is_asin_char :: "char \<Rightarrow> bool" where
  "is_asin_char c =
     (let n = (of_char c :: nat) in (65 \<le> n \<and> n \<le> 90) \<or> (48 \<le> n \<and> n \<le> 57))"

fun match_dp :: "string \<Rightarrow> string option" where
  "match_dp [] = None"
| "match_dp (c # cs) =
     (let cand = take 10 (drop 4 (c # cs))
      in if prefix ''/dp/'' (c # cs) \<and> length cand = 10 \<and> list_all is_asin_char cand
         then Some cand else match_dp cs)"

section \<open>List-mode extraction of the category scraper\<close>

text \<open>
  The body of the \<^verbatim>\<open>for\<close> loop inside \<^verbatim>\<open>page.evaluate\<close> of \<^verbatim>\<open>scrapeTrendingProducts\<close>
  (category scraper) for the element at index \<open>i\<close>: \<open>None\<close> is \<^verbatim>\<open>continue\<close>.
\<close>

definition scraperExtractElement :: "timestamp \<Rightarrow> nat \<Rightarrow> Element \<Rightarrow> Product option" where
  "scraperExtractElement clock i el =
     (let title = (case first_text el titleSelectors of None \<Rightarrow> [] | Some t \<Rightarrow> t)
      in if title = [] \<or> js_length title < 5 then None
         else
           let price = (case first_text el priceSelectors of
                          None \<Rightarrow> ''Price not available'' | Some t \<Rightarrow> t);
               rating = (case first_text el ratingSelectors of
                          None \<Rightarrow> ''No rating'' | Some t \<Rightarrow> t);
               imageUrl = or_null (map_of (props el) (''img'', ''src''));
               productUrl = or_null (map_of (props el) (''a'', ''href''));
               asin = (if truthy (map_of (attributes el) ''data-asin'')
                       then the (map_of (attributes el) ''data-asin'')
                       else case productUrl of
                              None \<Rightarrow> []
                            | Some u \<Rightarrow> (case match_dp u of None \<Rightarrow> [] | Some a \<Rightarrow> a))
           in if asin = [] then None
              else Some \<lparr> rank = RankNum (int i + 1), title = title, price = price,
                          rating = rating, image' = imageUrl, link = productUrl,
                          source = ''Amazon Best Sellers'', scrapedAt = clock,
                          asin = Some asin, availability = None, reviewCount = None,
                          brand = None, features = None \<rparr>)"

text \<open>One \<^verbatim>\<open>page.evaluate\<close>: every found element in order, with its index.\<close>

definition scraperExtractView :: "Dom \<Rightarrow> Product list" where
  "scraperExtractView doc =
     List.map_filter (\<lambda>(i, el). scraperExtractElement (page_clock doc) i el)
       (enumerate 0 (productElements doc))"

section \<open>List-mode extraction of the enhanced scraper\<close>

text \<open>\<^verbatim>\<open>s.replace('#', '')\<close>: the first occurrence only.\<close>

fun remove_first_hash :: "string \<Rightarrow> string" where
  "remove_first_hash [] = []"
| "remove_first_hash (c # cs) = (if c = CHR ''#'' then cs else c # remove_first_hash cs)"

text \<open>\<^verbatim>\<open>s.startsWith('http')\<close> is \<^term>\<open>prefix ''http'' s\<close>.\<close>

definition enhancedExtractElement :: "timestamp \<Rightarrow> nat \<Rightarrow> Element \<Rightarrow> Product option" where
  \<open>enhancedExtractElement clock i el =
     (let title = (case first_text el titleSelectors of None \<Rightarrow> [] | Some t \<Rightarrow> t)
      in if title = [] \<or> js_length title < 5 then None
         else
           let price = (case first_text el enhancedPriceSelectors of
                          None \<Rightarrow> ''Price not available'' | Some t \<Rightarrow> t);
               rating = (case map_of (texts el) ''.a-icon-alt'' of
                           None \<Rightarrow> ''N/A''
                         | Some t \<Rightarrow> if includes_str t ''out of'' then trim t else ''N/A'');
               image = or_null (map_of (props el)
                          (''.p13n-sc-dynamic-image, img[src*="amazon.com"]'', ''src''));
               link = (case or_null (map_of (props el) (''a[href*="/dp/"]'', ''href'')) of
                         None \<Rightarrow> None
                       | Some h \<Rightarrow> Some (if prefix ''http'' h then h
                                         else ''https://www.amazon.com'' @ h));
               asin = (case or_null (map_of (attributes el) ''data-asin'') of
                         None \<Rightarrow> [] | Some a \<Rightarrow> a);
               rank = (case map_of (texts el) ''.zg-bdg-text'' of
                         None \<Rightarrow> RankNum (int i + 1)
                       | Some t \<Rightarrow> if trim t \<noteq> [] then RankStr (remove_first_hash (trim t))
                                  else RankNum (int i + 1))
           in Some \<lparr> rank = rank, title = title, price = price, rating = rating,
                       image' = image, link = link,
                       source = ''Amazon Best Sellers (Electronics) - ASIN: '' @ asin,
                       scrapedAt = clock, asin = None, availability = None,
                       reviewCount = None, brand = None, features = None \<rparr>)\<close>

definition enhancedExtractView :: "Dom \<Rightarrow> Product list" where
  "enhancedExtractView doc =
     List.map_filter (\<lambda>(i, el). enhancedExtractElement (page_clock doc) i el)
       (enumerate 0 (productElements doc))"

section \<open>The browser page as a collaborator\<close>

text \<open>
  What one scraping call observes of puppeteer: each field is the error a step throws, if
  it throws. \<open>evaluate k\<close> is the document found by the extraction of loop iteration \<open>k\<close>
  (counted from 0), or the error \<^verbatim>\<open>page.evaluate\<close> throws there; \<open>scroll k\<close> is the error
  of the scrolling that follows it.
\<close>

record Page =
  createPage :: "error option"
  getScrapingUrl :: "error option"
  goto :: "error option"
  waitForSelector :: "error option"
  evaluate :: "nat \<Rightarrow> error + Dom"
  scroll :: "nat \<Rightarrow> error option"

text \<open>The steps before the loop, in order; the first error leaves the \<^verbatim>\<open>try\<close> block.\<close>

fun first_error :: "error option list \<Rightarrow> error option" where
  "first_error [] = None"
| "first_error (None # es) = first_error es"
| "first_error (Some e # es) = Some e"

definition maxScrollAttempts :: nat where
  "maxScrollAttempts = 6"

text \<open>\<^verbatim>\<open>Math.min(limit, 50)\<close>\<close>

definition targetProducts :: "int \<Rightarrow> int" where
  "targetProducts limit = min limit 50"

section \<open>The scrolling loop of the enhanced scraper\<close>








section \<open>The scrolling loop of the category scraper\<close>

function scraperLoop :: "Page \<Rightarrow> int \<Rightarrow> Product list \<Rightarrow> nat \<Rightarrow> error + Product list" where
  "scraperLoop pg target acc attempts =
     (if int (length acc) < target \<and> attempts < maxScrollAttempts then
        (case evaluate pg attempts of
           Inl e \<Rightarrow> Inl e
         | Inr doc \<Rightarrow>
             let currentProducts = scraperExtractView doc;
                 acc' = (if length currentProducts > 0 then acc @ currentProducts else acc)
             in (case scroll pg attempts of
                   Some e \<Rightarrow> Inl e
                 | None \<Rightarrow> scraperLoop pg target acc' (attempts + 1)))
      else Inr acc)"
  by pat_completeness auto
termination
  by (relation "measure (\<lambda>(pg, target, acc, attempts). maxScrollAttempts - attempts)") auto

declare scraperLoop.simps [simp del]

text \<open>
  \<^verbatim>\<open>category.charAt(0).toUpperCase() + category.slice(1)\<close>: an ASCII letter at the front is
  raised; the case table of the other scripts is not written out, such a first letter is
  kept.
\<close>

definition toUpperCase :: "char \<Rightarrow> char" where
  "toUpperCase c =
     (case map_of (zip ''abcdefghijklmnopqrstuvwxyz'' ''ABCDEFGHIJKLMNOPQRSTUVWXYZ'') c of
        None \<Rightarrow> c
      | Some u \<Rightarrow> u)"

fun capitalize :: "string \<Rightarrow> string" where
  "capitalize [] = []"
| "capitalize (c # cs) = toUpperCase c # cs"

text \<open>
  \<^verbatim>\<open>scrapeTrendingProducts(limit, type, category)\<close> of the category scraper: the source label
  of every record is rewritten, and \<^verbatim>\<open>allProducts.slice(0, limit)\<close> is returned, also when
  it is empty.
\<close>

definition scrapeTrendingProducts :: "Page \<Rightarrow> int \<Rightarrow> string \<Rightarrow> error + Product list" where
  "scrapeTrendingProducts pg limit category =
     (case first_error [createPage pg, getScrapingUrl pg, goto pg, waitForSelector pg] of
        Some e \<Rightarrow> Inl e
      | None \<Rightarrow>
          (case scraperLoop pg (targetProducts limit) [] 0 of
             Inl e \<Rightarrow> Inl e
           | Inr acc \<Rightarrow>
               Inr (js_slice
                      (map (\<lambda>product. product\<lparr> source :=
                              ''Amazon '' @ capitalize category @ '' Best Sellers'' \<rparr>) acc)
                      0 limit)))"

section \<open>Retry with backoff\<close>

text \<open>
  What \<^verbatim>\<open>retryOperation\<close> does to the outside, in order: it invokes the operation
  (attempt number, from 1) and it waits (\<^verbatim>\<open>await delay(ms)\<close>).
\<close>

datatype event = Invoke nat | Delay int

text \<open>
  The operation is a step on the state of the world that returns or throws. The loop
  \<^verbatim>\<open>for (attempt = 1; attempt <= maxRetries; attempt++)\<close> keeps the last error; leaving
  the loop without one (\<^verbatim>\<open>maxRetries < 1\<close>) throws \<^verbatim>\<open>undefined\<close>, written \<open>None\<close>.
\<close>

function retryLoop ::
  "nat \<Rightarrow> int \<Rightarrow> ('s \<Rightarrow> (error + 'a) \<times> 's) \<Rightarrow> nat \<Rightarrow> error option \<Rightarrow> 's \<Rightarrow> event list
     \<Rightarrow> (error option + 'a) \<times> 's \<times> event list" where
  "retryLoop maxRetries retryDelay operation attempt lastError s tr =
     (if attempt \<le> maxRetries then
        (case operation s of
           (Inr v, s') \<Rightarrow> (Inr v, s', tr @ [Invoke attempt])
         | (Inl e, s') \<Rightarrow>
             if attempt < maxRetries
             then retryLoop maxRetries retryDelay operation (attempt + 1) (Some e) s'
                    (tr @ [Invoke attempt, Delay (retryDelay * 2 ^ (attempt - 1))])
             else retryLoop maxRetries retryDelay operation (attempt + 1) (Some e) s'
                    (tr @ [Invoke attempt]))
      else (Inl lastError, s, tr))"
  by pat_completeness auto
termination
  by (relation "measure (\<lambda>(m, d, operation, attempt, e, s, tr). m + 1 - attempt)") auto

declare retryLoop.simps [simp del]

text \<open>The scraper's fields \<^verbatim>\<open>maxRetries = 3\<close> and \<^verbatim>\<open>retryDelay = 2000\<close>.\<close>

definition maxRetries :: nat where
  "maxRetries = 3"

definition retryDelay :: int where
  "retryDelay = 2000"

definition retryOperation ::
  "('s \<Rightarrow> (error + 'a) \<times> 's) \<Rightarrow> 's \<Rightarrow> (error option + 'a) \<times> 's \<times> event list" where
  "retryOperation operation s = retryLoop maxRetries retryDelay operation 1 None s []"

fun is_invoke :: "event \<Rightarrow> bool" where
  "is_invoke (Invoke n) = True"
| "is_invoke (Delay d) = False"

section \<open>HTTP-only extraction\<close>

text \<open>
  The title test of \<^verbatim>\<open>scrapeWithHttpOnly\<close>; the last conjunct is
  \<^verbatim>\<open>!/^[0-9\s\-#\.]*$/.test(title)\<close>: the title is not made of digits, white space, \<open>-\<close>,
  \<open>#\<close> and \<open>.\<close> only.
\<close>

definition rank_noise :: "string list" where
  "rank_noise = map (\<lambda>c. [c]) ''0123456789-#.'' @ whiteSpace"

definition is_rank_noise :: "string \<Rightarrow> bool" where
  "is_rank_noise t = (strip_prefixes rank_noise t = [])"

definition validHttpTitle :: "string \<Rightarrow> bool" where
  "validHttpTitle t =
     (t \<noteq> [] \<and> js_length t > 10 \<and> js_length t < 200 \<and> \<not> includes_str t ''Amazon''
      \<and> \<not> includes_str t ''Best Sellers'' \<and> \<not> is_rank_noise t)"

definition mkHttpProduct :: "timestamp \<Rightarrow> int \<Rightarrow> string \<Rightarrow> Product" where
  "mkHttpProduct now r t =
     \<lparr> rank = RankNum r, title = t, price = ''Price not available'', rating = ''N/A'',
       image' = None, link = None, source = ''Amazon Best Sellers (HTTP)'', scrapedAt = now,
       asin = None, availability = None, reviewCount = None, brand = None, features = None \<rparr>"

text \<open>
  The inner \<^verbatim>\<open>while ((match = regex.exec(html)) !== null && rank <= limit)\<close> over the
  successive first captures of one pattern; it returns the products and the rank counter.
\<close>

fun httpScan :: "timestamp \<Rightarrow> int \<Rightarrow> string list \<Rightarrow> Product list \<Rightarrow> int \<Rightarrow> Product list \<times> int" where
  "httpScan now limit [] products r = (products, r)"
| "httpScan now limit (m # ms) products r =
     (if r \<le> limit then
        (let t = trim m
         in if validHttpTitle t \<and> \<not> list_ex (\<lambda>p. title p = t) products
            then httpScan now limit ms (products @ [mkHttpProduct now r t]) (r + 1)
            else httpScan now limit ms products r)
      else (products, r))"

text \<open>The outer \<^verbatim>\<open>for (const pattern of titlePatterns)\<close>, left at the first pattern that found products.\<close>

fun httpPatterns ::
  "timestamp \<Rightarrow> int \<Rightarrow> string list list \<Rightarrow> Product list \<Rightarrow> int \<Rightarrow> Product list" where
  "httpPatterns now limit [] products r = products"
| "httpPatterns now limit (ms # rest) products r =
     (case httpScan now limit ms products r of
        (products', r') \<Rightarrow>
          if length products' > 0 then products' else httpPatterns now limit rest products' r')"

text \<open>
  The response to the HTTPS request: the error of the request (status other than 200,
  network error, timeout), or for each of the five title patterns, in order, the first
  captures of its successive matches in the received markup.
\<close>

type_synonym http_response = "error + (nat \<Rightarrow> string list)"

definition scrapeWithHttpOnly :: "timestamp \<Rightarrow> http_response \<Rightarrow> int \<Rightarrow> error + Product list" where
  "scrapeWithHttpOnly now response limit =
     (case response of
        Inl e \<Rightarrow> Inl e
      | Inr captures \<Rightarrow>
          (let products = httpPatterns now limit (map captures [0..<5]) [] 1
           in if length products > 0 then Inr products else Inl NoProductsInHttpResponse))"

section \<open>The fallback chain\<close>

text \<open>
  The environment of one \<^verbatim>\<open>getTrendingProducts\<close> call: \<^verbatim>\<open>process.env.SKIP_BROWSER === 'true'\<close>,
  the page the browser gives, the HTTP response, and the clock.
\<close>

record ScraperEnv =
  skipBrowser :: bool
  page :: Page
  http :: http_response
  clock :: timestamp

definition getTrendingProducts :: "ScraperEnv \<Rightarrow> int \<Rightarrow> string \<Rightarrow> error + Product list" where
  "getTrendingProducts env limit category =
     (if skipBrowser env then
        (case scrapeWithHttpOnly (clock env) (http env) limit of
           Inr ps \<Rightarrow> Inr ps
         | Inl httpError \<Rightarrow> Inr (getFallbackProducts (clock env) limit))
      else
        (case scrapeTrendingProducts (page env) limit category of
           Inr ps \<Rightarrow> Inr ps
         | Inl err \<Rightarrow>
             (case scrapeWithHttpOnly (clock env) (http env) limit of
                Inr ps \<Rightarrow> Inr ps
              | Inl httpError \<Rightarrow> Inr (getFallbackProducts (clock env) limit))))"

section \<open>Detail-mode extraction\<close>

text \<open>
  \<^verbatim>\<open>new URL(url)\<close> belongs to the platform: the parser is a parameter that gives the
  \<^verbatim>\<open>hostname\<close> and \<^verbatim>\<open>pathname\<close> of a string, or \<open>None\<close> where the constructor throws.
\<close>

record URL =
  hostname :: string
  pathname :: string

definition validDomains :: "string list" where
  "validDomains =
     [''amazon.com'', ''amazon.co.uk'', ''amazon.ca'', ''amazon.de'', ''amazon.fr'',
      ''amazon.it'', ''amazon.es'', ''amazon.co.jp'', ''amazon.in'', ''amazon.com.au'',
      ''amazon.com.br'', ''amazon.com.mx'']"

definition isValidAmazonUrl :: "(string \<Rightarrow> URL option) \<Rightarrow> string \<Rightarrow> bool" where
  "isValidAmazonUrl parse url =
     (case parse url of
        None \<Rightarrow> False
      | Some urlObj \<Rightarrow>
          (let isAmazonDomain =
                 list_ex (\<lambda>domain. hostname urlObj = domain \<or> hostname urlObj = ''www.'' @ domain)
                   validDomains;
               hasProductPath =
                 (includes_str (pathname urlObj) ''/dp/''
                  \<or> includes_str (pathname urlObj) ''/gp/product/''
                  \<or> includes_str (pathname urlObj) ''/product/'')
           in isAmazonDomain \<and> hasProductPath))"

text \<open>
  The detail page's document, read through \<^verbatim>\<open>document.querySelector\<close>: \<open>texts\<close> and \<open>props\<close>
  as for an element (a selector has an entry in \<open>texts\<close> exactly when it matches), the
  \<^verbatim>\<open>textContent\<close> of the feature bullets, and \<^verbatim>\<open>window.location.href\<close>.
\<close>

record DetailDoc =
  document :: Element
  feature_items :: "string list"
  location_href :: string
  detail_clock :: timestamp

fun getTextContent :: "Element \<Rightarrow> string list \<Rightarrow> string" where
  "getTextContent doc [] = []"
| "getTextContent doc (sel # sels) =
     (case map_of (texts doc) sel of
        Some t \<Rightarrow> trim t
      | None \<Rightarrow> getTextContent doc sels)"

fun getAttribute :: "Element \<Rightarrow> string list \<Rightarrow> string \<Rightarrow> string" where
  "getAttribute doc [] attr = []"
| "getAttribute doc (sel # sels) attr =
     (case map_of (texts doc) sel of
        Some t \<Rightarrow> (case map_of (props doc) (sel, attr) of Some v \<Rightarrow> v | None \<Rightarrow> [])
      | None \<Rightarrow> getAttribute doc sels attr)"

text \<open>The object returned by \<^verbatim>\<open>page.evaluate\<close> in \<^verbatim>\<open>scrapeProductDetails\<close>.\<close>

record ProductDetails =
  d_title :: string
  d_price :: string
  d_rating :: string
  d_image :: string
  d_asin :: string
  d_availability :: string
  d_reviewCount :: string
  d_brand :: string
  d_features :: "string list"

definition imageSelectors :: "string list" where
  "imageSelectors = [''#landingImage'', ''#imgBlkFront'', ''.a-dynamic-image'', ''img.a-dynamic-image'']"

definition extractDetails :: "DetailDoc \<Rightarrow> ProductDetails" where
  \<open>extractDetails dd =
     (let doc = document dd;
          src = getAttribute doc imageSelectors ''src''
      in \<lparr> d_title = getTextContent doc
                 [''#productTitle'', ''.product-title h1'', ''h1.a-size-large'', ''h1 span''],
            d_price = getTextContent doc
                 [''.a-price .a-offscreen'', ''.a-price-whole'', ''#priceblock_dealprice'',
                  ''#priceblock_ourprice'', ''.a-price-current .a-offscreen'',
                  ''.a-price-range .a-offscreen'',
                  ''span.a-price.a-text-price.a-size-medium.apexPriceToPay'',
                  ''.a-price.a-text-price.a-size-medium.apexPriceToPay .a-offscreen''],
            d_rating = getTextContent doc
                 [''span.a-icon-alt'', ''.a-icon-star .a-icon-alt'', ''#acrPopover .a-icon-alt'',
                  ''.reviewCountTextLinkedHistogram .a-icon-alt''],
            d_image = (if src \<noteq> [] then src
                       else getAttribute doc imageSelectors ''data-old-hires''),
            d_asin = (case map_of (texts doc) ''div[data-asin]'' of
                        Some t \<Rightarrow> (case map_of (props doc) (''div[data-asin]'', ''data-asin'') of
                                     Some a \<Rightarrow> a | None \<Rightarrow> [])
                      | None \<Rightarrow> (case match_dp (location_href dd) of
                                   Some a \<Rightarrow> a | None \<Rightarrow> [])),
            d_availability = getTextContent doc
                 [''#availability span'', ''.a-color-success'', ''.a-color-state'',
                  ''#availability .a-color-success''],
            d_reviewCount = getTextContent doc
                 [''a[href="#customerReviews"] span'', ''#acrCustomerReviewText'',
                  ''.a-link-normal span''],
            d_brand = getTextContent doc
                 [''#bylineInfo'', ''.a-link-normal#bylineInfo'', ''a.a-link-normal span'',
                  ''.po-brand .po-break-word''],
            d_features = js_slice
                 (filter (\<lambda>t. t \<noteq> [] \<and> \<not> includes_str t ''Make sure'' \<and> js_length t > 10)
                    (map trim (feature_items dd))) 0 5 \<rparr>)\<close>

text \<open>\<^verbatim>\<open>s || fallback\<close> and the conditional spread \<^verbatim>\<open>...(s && { field: s })\<close> on a string.\<close>

definition or_else :: "string \<Rightarrow> string \<Rightarrow> string" where
  "or_else s fallback = (if s \<noteq> [] then s else fallback)"

definition present :: "string \<Rightarrow> string option" where
  "present s = (if s \<noteq> [] then Some s else None)"

text \<open>
  What the call does to the browser: pages it created and addresses it navigated to.
\<close>

record Browser =
  pagesCreated :: nat
  navigations :: "string list"

record DetailPage =
  detail_createPage :: "error option"
  detail_goto :: "error option"
  detail_waitForTimeout :: "error option"
  detail_evaluate :: "error + DetailDoc"

definition scrapeProductDetails ::
  "(string \<Rightarrow> URL option) \<Rightarrow> DetailPage \<Rightarrow> string \<Rightarrow> Browser \<Rightarrow> (error + Product) \<times> Browser" where
  "scrapeProductDetails parse pg productUrl browser =
     (if \<not> isValidAmazonUrl parse productUrl then (Inl InvalidAmazonUrl, browser)
      else
        (case detail_createPage pg of
           Some e \<Rightarrow> (Inl e, browser)
         | None \<Rightarrow>
             (let b1 = browser\<lparr> pagesCreated := pagesCreated browser + 1 \<rparr>;
                  b2 = b1\<lparr> navigations := navigations b1 @ [productUrl] \<rparr>
              in case detail_goto pg of
                   Some e \<Rightarrow> (Inl e, b2)
                 | None \<Rightarrow>
                     (case detail_waitForTimeout pg of
                        Some e \<Rightarrow> (Inl e, b2)
                      | None \<Rightarrow>
                          (case detail_evaluate pg of
                             Inl e \<Rightarrow> (Inl e, b2)
                           | Inr dd \<Rightarrow>
                               (let productDetails = extractDetails dd
                                in if d_title productDetails = []
                                      \<or> js_length (d_title productDetails) < 5
                                   then (Inl NoTitleExtracted, b2)
                                   else
                                     (Inr \<lparr> rank = RankStr ''1'',
                                            title = d_title productDetails,
                                            price = or_else (d_price productDetails)
                                                      ''Price not available'',
                                            rating = or_else (d_rating productDetails)
                                                      ''Rating not available'',
                                            image' = Some (or_else (d_image productDetails)
                                              ''https://via.placeholder.com/200x200?text=No+Image''),
                                            link = Some productUrl,
                                            source = ''Amazon Product Detail''
                                              @ (if d_asin productDetails \<noteq> []
                                                 then '' - ASIN: '' @ d_asin productDetails
                                                 else []),
                                            scrapedAt = detail_clock dd,
                                            asin = present (d_asin productDetails),
                                            availability = present (d_availability productDetails),
                                            reviewCount = present (d_reviewCount productDetails),
                                            brand = present (d_brand productDetails),
                                            features = (if length (d_features productDetails) > 0
                                                        then Some (d_features productDetails)
                                                        else None) \<rparr>, b2)))))))"

section \<open>The products table\<close>

text \<open>
  \<^verbatim>\<open>parseInt(s)\<close> without a radix: leading white space, a sign, an optional \<^verbatim>\<open>0x\<close> prefix,
  then the longest run of digits; \<open>None\<close> is \<^verbatim>\<open>NaN\<close>. The value is the integer that the
  digits denote; JavaScript gives the nearest double, which differs from it only beyond
  \<open>2^53\<close>.
\<close>

definition digit_of :: "nat \<Rightarrow> char \<Rightarrow> nat option" where
  "digit_of radix c =
     (let n = (of_char c :: nat);
          d = (if 48 \<le> n \<and> n \<le> 57 then Some (n - 48)
               else if 97 \<le> n \<and> n \<le> 122 then Some (n - 87)
               else if 65 \<le> n \<and> n \<le> 90 then Some (n - 55)
               else None)
      in case d of None \<Rightarrow> None | Some v \<Rightarrow> if v < radix then Some v else None)"

fun digits_value :: "nat \<Rightarrow> string \<Rightarrow> nat \<Rightarrow> nat" where
  "digits_value radix [] acc = acc"
| "digits_value radix (c # cs) acc =
     (case digit_of radix c of
        None \<Rightarrow> acc
      | Some v \<Rightarrow> digits_value radix cs (acc * radix + v))"

definition parseInt :: "string \<Rightarrow> int option" where
  "parseInt s =
     (let t = trimStart s;
          neg = prefix ''-'' t;
          u = (if prefix ''-'' t \<or> prefix ''+'' t then drop 1 t else t);
          hex = (prefix ''0x'' u \<or> prefix ''0X'' u);
          radix = (if hex then 16 else 10);
          w = (if hex then drop 2 u else u)
      in case w of
           [] \<Rightarrow> None
         | c # cs \<Rightarrow>
             (case digit_of radix c of
                None \<Rightarrow> None
              | Some v \<Rightarrow> Some ((if neg then - 1 else 1) * int (digits_value radix w 0))))"

text \<open>\<^verbatim>\<open>parseInt(s) || d\<close>: \<^verbatim>\<open>NaN\<close> and \<open>0\<close> are falsy.\<close>

definition parseInt_or :: "string \<Rightarrow> int \<Rightarrow> int" where
  "parseInt_or s d = (case parseInt s of None \<Rightarrow> d | Some n \<Rightarrow> if n = 0 then d else n)"

text \<open>\<^verbatim>\<open>s.split(pat)[1]\<close> when \<open>pat\<close> occurs in \<open>s\<close>: what lies between its first two occurrences.\<close>

fun after_first :: "string \<Rightarrow> string \<Rightarrow> string" where
  "after_first pat [] = []"
| "after_first pat (c # cs) =
     (if prefix pat (c # cs) then drop (length pat) (c # cs) else after_first pat cs)"

fun before_first :: "string \<Rightarrow> string \<Rightarrow> string" where
  "before_first pat [] = []"
| "before_first pat (c # cs) = (if prefix pat (c # cs) then [] else c # before_first pat cs)"

definition split_second :: "string \<Rightarrow> string \<Rightarrow> string" where
  "split_second pat s = before_first pat (after_first pat s)"

text \<open>
  \<^verbatim>\<open>Omit<DatabaseProduct, 'id' | 'created_at' | 'updated_at'>\<close>, and a row of the table
  \<^verbatim>\<open>products\<close>. The surrogate key \<^verbatim>\<open>id\<close> is left out: no query of the service reads it.
\<close>

record DatabaseProduct =
  db_asin :: "string option"
  db_rank :: int
  db_title :: string
  db_price :: string
  db_rating :: string
  db_image_url :: "string option"
  db_product_url :: "string option"
  db_source :: string
  db_category :: string
  db_scraped_at :: timestamp

record Row = DatabaseProduct +
  created_at :: timestamp
  updated_at :: timestamp

definition convertToDbProduct :: "Product \<Rightarrow> string \<Rightarrow> DatabaseProduct" where
  "convertToDbProduct product category =
     (let asin =
            (if source product \<noteq> [] \<and> includes_str (source product) ''ASIN:''
             then trim (split_second ''ASIN:'' (source product))
             else case link product of
                    None \<Rightarrow> []
                  | Some l \<Rightarrow>
                      if l \<noteq> [] \<and> includes_str l ''/dp/''
                      then (case match_dp l of None \<Rightarrow> [] | Some a \<Rightarrow> a)
                      else [])
      in \<lparr> db_asin = present asin,
            db_rank = (case rank product of RankStr r \<Rightarrow> parseInt_or r 0 | RankNum n \<Rightarrow> n),
            db_title = title product,
            db_price = price product,
            db_rating = rating product,
            db_image_url = image' product,
            db_product_url = link product,
            db_source = source product,
            db_category = category,
            db_scraped_at = scrapedAt product \<rparr>)"

definition convertFromDbProduct :: "Row \<Rightarrow> Product" where
  "convertFromDbProduct dbProduct =
     \<lparr> rank = RankNum (db_rank dbProduct), title = db_title dbProduct,
       price = db_price dbProduct, rating = db_rating dbProduct,
       image' = db_image_url dbProduct, link = db_product_url dbProduct,
       source = db_source dbProduct, scrapedAt = db_scraped_at dbProduct,
       asin = or_null (db_asin dbProduct), availability = None, reviewCount = None,
       brand = None, features = None \<rparr>"

text \<open>
  The column types of \<^verbatim>\<open>CREATE TABLE products\<close>. A \<^verbatim>\<open>VARCHAR(n)\<close> holds \<open>n\<close> characters (code
  points, not bytes): a longer value is an error unless the characters after the
  \<open>n\<close>-th are all spaces, and then it is cut to \<open>n\<close> characters.
\<close>

text \<open>What is left of a string after its first \<open>n\<close> characters, and those characters.\<close>

fun drop_chars :: "nat \<Rightarrow> string \<Rightarrow> string" where
  "drop_chars n [] = []"
| "drop_chars n (c # cs) =
     (if n = 0 then c # cs else drop_chars (n - 1) (dropWhile is_continuation cs))"

definition take_chars :: "nat \<Rightarrow> string \<Rightarrow> string" where
  "take_chars n s = take (length s - length (drop_chars n s)) s"

definition too_long :: "nat \<Rightarrow> string \<Rightarrow> bool" where
  "too_long n s = (\<not> list_all (\<lambda>c. c = CHR '' '') (drop_chars n s))"

text \<open>
  The error of the \<^verbatim>\<open>INSERT\<close> for a value that a \<^verbatim>\<open>VARCHAR\<close> column of \<^verbatim>\<open>products\<close> cannot hold,
  the columns taken in the order of the table.
\<close>

definition varchar_error :: "DatabaseProduct \<Rightarrow> error option" where
  "varchar_error r =
     (if (case db_asin r of None \<Rightarrow> False | Some a \<Rightarrow> too_long 20 a)
      then Some (External ''value too long for type character varying(20)'')
      else if too_long 50 (db_price r) \<or> too_long 50 (db_rating r)
      then Some (External ''value too long for type character varying(50)'')
      else if too_long 100 (db_source r)
      then Some (External ''value too long for type character varying(100)'')
      else if too_long 50 (db_category r)
      then Some (External ''value too long for type character varying(50)'')
      else None)"

text \<open>
  Every other reason for which the server answers an \<^verbatim>\<open>INSERT\<close> with an error (a value
  that \<^verbatim>\<open>INTEGER\<close> or the encoding of the database cannot hold, an index entry that is too
  large, a statement timeout, a deadlock, a full disk) belongs to the server, and is a
  parameter: \<open>refuses k r\<close> is the error with which the server answers the \<open>k\<close>-th
  \<^verbatim>\<open>INSERT\<close> of the transaction (from 0), sent with the values \<open>r\<close>, for such a reason, or
  \<open>None\<close> when it has none; an \<^verbatim>\<open>INSERT\<close> that it does not refuse fails only by the lengths
  above. The session itself stays usable: \<^verbatim>\<open>BEGIN\<close>, \<^verbatim>\<open>COMMIT\<close> and \<^verbatim>\<open>ROLLBACK\<close> are
  answered.
\<close>

type_synonym refusal = "nat \<Rightarrow> DatabaseProduct \<Rightarrow> error option"

text \<open>The error that \<^verbatim>\<open>await client.query(query, values)\<close> throws, if it throws.\<close>

definition insert_error :: "refusal \<Rightarrow> nat \<Rightarrow> DatabaseProduct \<Rightarrow> error option" where
  "insert_error refuses k r =
     (case refuses k r of Some e \<Rightarrow> Some e | None \<Rightarrow> varchar_error r)"

definition stored_values :: "DatabaseProduct \<Rightarrow> DatabaseProduct" where
  "stored_values r =
     r\<lparr> db_asin := map_option (take_chars 20) (db_asin r),
        db_price := take_chars 50 (db_price r), db_rating := take_chars 50 (db_rating r),
        db_source := take_chars 100 (db_source r),
        db_category := take_chars 50 (db_category r) \<rparr>"

text \<open>The inserted row: \<^verbatim>\<open>created_at\<close> and \<^verbatim>\<open>updated_at\<close> default to \<^verbatim>\<open>CURRENT_TIMESTAMP\<close>.\<close>

definition new_row :: "timestamp \<Rightarrow> DatabaseProduct \<Rightarrow> Row" where
  "new_row now v = DatabaseProduct.extend v \<lparr> created_at = now, updated_at = now \<rparr>"

text \<open>\<^verbatim>\<open>DO UPDATE SET ... = EXCLUDED. ..., updated_at = CURRENT_TIMESTAMP\<close> on the row in conflict.\<close>

definition overwrite :: "timestamp \<Rightarrow> DatabaseProduct \<Rightarrow> Row \<Rightarrow> Row" where
  "overwrite now v x =
     x\<lparr> db_rank := db_rank v, db_title := db_title v, db_price := db_price v,
        db_rating := db_rating v, db_image_url := db_image_url v,
        db_product_url := db_product_url v, db_source := db_source v,
        db_category := db_category v, db_scraped_at := db_scraped_at v, updated_at := now \<rparr>"

text \<open>
  What an accepted \<^verbatim>\<open>INSERT INTO products ... ON CONFLICT (asin) DO UPDATE ...\<close> does to the
  table contents. \<^verbatim>\<open>asin\<close> is \<^verbatim>\<open>UNIQUE\<close> and nullable: a \<^verbatim>\<open>NULL\<close> conflicts with no row.
\<close>

definition upsertInto :: "timestamp \<Rightarrow> DatabaseProduct \<Rightarrow> Row list \<Rightarrow> Row list" where
  "upsertInto now r rows =
     (let v = stored_values r
      in case db_asin v of
           None \<Rightarrow> rows @ [new_row now v]
         | Some a \<Rightarrow>
             if list_ex (\<lambda>x. db_asin x = Some a) rows
             then map (\<lambda>x. if db_asin x = Some a then overwrite now v x else x) rows
             else rows @ [new_row now v])"

text \<open>The \<open>k\<close>-th \<^verbatim>\<open>INSERT\<close> of the transaction on the table contents: the error, or the new contents.\<close>

definition upsertRow ::
  "refusal \<Rightarrow> nat \<Rightarrow> timestamp \<Rightarrow> DatabaseProduct \<Rightarrow> Row list \<Rightarrow> error + Row list" where
  "upsertRow refuses k now r rows =
     (case insert_error refuses k r of
        Some e \<Rightarrow> Inl e
      | None \<Rightarrow> Inr (upsertInto now r rows))"

text \<open>
  A connection from the pool: the committed contents of \<^verbatim>\<open>products\<close>, and inside
  \<^verbatim>\<open>BEGIN\<close> ... \<^verbatim>\<open>COMMIT\<close> the contents the open transaction sees.
\<close>

record Client =
  stored :: "Row list"
  pending :: "Row list option"

definition query_BEGIN :: "Client \<Rightarrow> Client" where
  "query_BEGIN c = c\<lparr> pending := Some (stored c) \<rparr>"

definition query_COMMIT :: "Client \<Rightarrow> Client" where
  "query_COMMIT c =
     (case pending c of None \<Rightarrow> c | Some w \<Rightarrow> \<lparr> stored = w, pending = None \<rparr>)"

definition query_ROLLBACK :: "Client \<Rightarrow> Client" where
  "query_ROLLBACK c = c\<lparr> pending := None \<rparr>"

definition query_UPSERT ::
  "refusal \<Rightarrow> nat \<Rightarrow> timestamp \<Rightarrow> DatabaseProduct \<Rightarrow> Client \<Rightarrow> error + Client" where
  "query_UPSERT refuses k now r c =
     (case pending c of
        Some w \<Rightarrow>
          (case upsertRow refuses k now r w of
             Inl e \<Rightarrow> Inl e
           | Inr w' \<Rightarrow> Inr (c\<lparr> pending := Some w' \<rparr>))
      | None \<Rightarrow>
          (case upsertRow refuses k now r (stored c) of
             Inl e \<Rightarrow> Inl e
           | Inr w' \<Rightarrow> Inr (c\<lparr> stored := w' \<rparr>)))"

text \<open>
  The \<^verbatim>\<open>for (const product of products)\<close> of \<^verbatim>\<open>saveProducts\<close>; a failing query throws.
  \<^verbatim>\<open>savedCount\<close> is also the number of the next query.
\<close>

fun saveLoop ::
  "refusal \<Rightarrow> timestamp \<Rightarrow> string \<Rightarrow> Product list \<Rightarrow> Client \<Rightarrow> nat
     \<Rightarrow> (error \<times> Client) + (nat \<times> Client)" where
  "saveLoop refuses now category [] c savedCount = Inr (savedCount, c)"
| "saveLoop refuses now category (product # products) c savedCount =
     (case query_UPSERT refuses savedCount now (convertToDbProduct product category) c of
        Inl e \<Rightarrow> Inl (e, c)
      | Inr c' \<Rightarrow> saveLoop refuses now category products c' (savedCount + 1))"

text \<open>
  \<^verbatim>\<open>saveProducts(products, category)\<close>: \<^verbatim>\<open>BEGIN\<close>, the loop, \<^verbatim>\<open>COMMIT\<close>; in the \<^verbatim>\<open>catch\<close>,
  \<^verbatim>\<open>ROLLBACK\<close> and the error is thrown again. \<open>now\<close> is the transaction's
  \<^verbatim>\<open>CURRENT_TIMESTAMP\<close>.
\<close>

definition saveProducts ::
  "refusal \<Rightarrow> timestamp \<Rightarrow> Product list \<Rightarrow> string \<Rightarrow> Client \<Rightarrow> (error + int) \<times> Client" where
  "saveProducts refuses now products category c =
     (case saveLoop refuses now category products (query_BEGIN c) 0 of
        Inr (savedCount, c') \<Rightarrow> (Inr (int savedCount), query_COMMIT c')
      | Inl (e, c') \<Rightarrow> (Inl e, query_ROLLBACK c'))"

text \<open>
  For the statement of what a batch does: the error of the first query of the batch that
  fails, the queries being numbered from \<open>k\<close>; and the table after every record of the batch
  was upserted, in the order of the batch.
\<close>

fun first_failure :: "refusal \<Rightarrow> string \<Rightarrow> Product list \<Rightarrow> nat \<Rightarrow> error option" where
  "first_failure refuses category [] k = None"
| "first_failure refuses category (p # ps) k =
     (case insert_error refuses k (convertToDbProduct p category) of
        Some e \<Rightarrow> Some e
      | None \<Rightarrow> first_failure refuses category ps (k + 1))"

definition upsertAll :: "timestamp \<Rightarrow> string \<Rightarrow> Product list \<Rightarrow> Row list \<Rightarrow> Row list" where
  "upsertAll now category batch rows =
     foldl (\<lambda>w p. upsertInto now (convertToDbProduct p category) w) rows batch"

text \<open>
  The window of the read queries:
  \<^verbatim>\<open>scraped_at > NOW() - INTERVAL '${maxAgeHours} hours'\<close>, one hour being 3600000 ms.
\<close>

definition in_window :: "timestamp \<Rightarrow> int \<Rightarrow> Row \<Rightarrow> bool" where
  "in_window now maxAgeHours r = (db_scraped_at r > now - maxAgeHours * 3600000)"

text \<open>
  \<^verbatim>\<open>getProducts(limit, category, maxAgeHours)\<close>. \<^verbatim>\<open>ORDER BY rank ASC, scraped_at DESC\<close> is two
  stable sorts, the minor key first; a negative \<^verbatim>\<open>LIMIT\<close> is an error of the database.
\<close>

definition getProducts :: "timestamp \<Rightarrow> Row list \<Rightarrow> int \<Rightarrow> string \<Rightarrow> int \<Rightarrow> error + Product list" where
  "getProducts now rows limit category maxAgeHours =
     (if limit < 0 then Inl (External ''LIMIT must not be negative'')
      else Inr (map convertFromDbProduct
             (take (nat limit)
                (sort_key db_rank
                   (sort_key (\<lambda>r. - db_scraped_at r)
                      (filter (\<lambda>r. db_category r = category \<and> in_window now maxAgeHours r)
                         rows))))))"

text \<open>
  \<^verbatim>\<open>hasFreshData(category, maxAgeHours)\<close>: \<^verbatim>\<open>COUNT(*)\<close> and \<^verbatim>\<open>MAX(scraped_at)\<close> over the rows of
  the category inside the window.
\<close>

record FreshData =
  hasFresh :: bool
  count :: nat
  lastScraped :: "timestamp option"

definition hasFreshData :: "timestamp \<Rightarrow> Row list \<Rightarrow> string \<Rightarrow> int \<Rightarrow> FreshData" where
  "hasFreshData now rows category maxAgeHours =
     (let fresh = filter (\<lambda>r. db_category r = category \<and> in_window now maxAgeHours r) rows
      in \<lparr> hasFresh = (length fresh > 0),
            count = length fresh,
            lastScraped = (if fresh = [] then None
                           else Some (Max (set (map db_scraped_at fresh)))) \<rparr>)"

text \<open>The age of a row at \<open>now\<close>, in milliseconds, and \<open>maxAgeHours\<close> in the same unit.\<close>

definition age :: "timestamp \<Rightarrow> Row \<Rightarrow> int" where
  "age now r = now - db_scraped_at r"

definition hours :: "int \<Rightarrow> int" where
  "hours h = h * 3600000"

section \<open>Scraping sessions\<close>

record ScrapingSession =
  session_id :: string
  s_source :: string
  s_category :: string
  products_found :: int
  success :: bool
  error_message :: "string option"
  started_at :: timestamp
  completed_at :: "timestamp option"

record Database =
  products :: "Row list"
  scraping_sessions :: "ScrapingSession list"

text \<open>\<^verbatim>\<open>(error as Error).message\<close>\<close>

fun message :: "error \<Rightarrow> string" where
  "message InvalidAmazonUrl = ''Invalid Amazon URL provided''"
| "message NoProductsExtracted = ''No products extracted from page''"
| "message NoProductsInHttpResponse = ''No products found in HTTP response''"
| "message NoTitleExtracted =
     ''Could not extract product title - page may have failed to load properly''"
| "message NoProductsScraped = ''No products scraped''"
| "message (External m) = m"

text \<open>
  \<^verbatim>\<open>createScrapingSession(source, category)\<close>; \<open>uuid\<close> is what \<^verbatim>\<open>uuidv4()\<close> returns. The columns
  are \<^verbatim>\<open>VARCHAR(50)\<close> and \<^verbatim>\<open>session_id\<close> is \<^verbatim>\<open>UNIQUE\<close>.
\<close>

definition createScrapingSession ::
  "string \<Rightarrow> timestamp \<Rightarrow> string \<Rightarrow> string \<Rightarrow> Database \<Rightarrow> error + (string \<times> Database)" where
  "createScrapingSession uuid now src category db =
     (if too_long 50 uuid \<or> too_long 50 src \<or> too_long 50 category
      then Inl (External ''value too long for type character varying(50)'')
      else if list_ex (\<lambda>x. session_id x = take_chars 50 uuid) (scraping_sessions db)
      then Inl (External (''duplicate key value violates unique constraint ''
                  @ [CHR 0x22] @ ''scraping_sessions_session_id_key'' @ [CHR 0x22]))
      else Inr (uuid,
             db\<lparr> scraping_sessions := scraping_sessions db @
                   [\<lparr> session_id = take_chars 50 uuid, s_source = take_chars 50 src,
                      s_category = take_chars 50 category, products_found = 0, success = False,
                      error_message = None, started_at = now, completed_at = None \<rparr>] \<rparr>))"

definition updateScrapingSession ::
  "timestamp \<Rightarrow> string \<Rightarrow> bool \<Rightarrow> int \<Rightarrow> string option \<Rightarrow> Database \<Rightarrow> Database" where
  "updateScrapingSession now sessionId ok productsFound errorMessage db =
     db\<lparr> scraping_sessions :=
           map (\<lambda>x. if session_id x = sessionId
                     then x\<lparr> success := ok, products_found := productsFound,
                            error_message := errorMessage, completed_at := Some now \<rparr>
                     else x)
             (scraping_sessions db) \<rparr>"

section \<open>The products endpoint\<close>

text \<open>The query string of \<^verbatim>\<open>GET /products\<close>; \<open>None\<close> is an absent parameter.\<close>

record ProductsQuery =
  q_trending :: "string option"
  q_category :: "string option"
  q_limit :: "string option"
  q_force :: "string option"

text \<open>
  The response: the products and the data source label of a 200, a 400 of the parameter
  checks, or the 500 of the outer \<^verbatim>\<open>catch\<close>.
\<close>

datatype response =
    Ok200 "Product list" string
  | BadRequest400 string
  | ServiceUnavailable500

text \<open>
  The inner \<^verbatim>\<open>try\<close> block: scrape, and when something was scraped save it and close the
  session as successful. \<open>Inl\<close> is the error that reaches \<^verbatim>\<open>catch (scrapingError)\<close>, with
  the database as it is then.
\<close>

definition scrapeAndSave ::
  "ScraperEnv \<Rightarrow> refusal \<Rightarrow> timestamp \<Rightarrow> string \<Rightarrow> int \<Rightarrow> string \<Rightarrow> Database
     \<Rightarrow> (error \<times> Database) + (Product list \<times> Database)" where
  "scrapeAndSave env refuses now sessionId productLimit category db =
     (case getTrendingProducts env productLimit category of
        Inl e \<Rightarrow> Inl (e, db)
      | Inr scrapedProducts \<Rightarrow>
          if length scrapedProducts > 0 then
            (case saveProducts refuses now scrapedProducts category
                    \<lparr> stored = products db, pending = None \<rparr> of
               (Inl e, c) \<Rightarrow> Inl (e, db\<lparr> products := stored c \<rparr>)
             | (Inr savedCount, c) \<Rightarrow>
                 Inr (scrapedProducts,
                      updateScrapingSession now sessionId True savedCount None
                        (db\<lparr> products := stored c \<rparr>)))
          else Inl (NoProductsScraped, db))"

definition productsRoute ::
  "ScraperEnv \<Rightarrow> refusal \<Rightarrow> string \<Rightarrow> timestamp \<Rightarrow> int \<Rightarrow> ProductsQuery \<Rightarrow> Database
     \<Rightarrow> response \<times> Database" where
  "productsRoute env refuses uuid now maxAgeHours q db =
     (if \<not> truthy (q_trending q)
      then (BadRequest400 ''Missing required parameter'', db)
      else if q_trending q \<noteq> Some ''amazon''
      then (BadRequest400 ''Invalid trending parameter'', db)
      else
        (let category = (case q_category q of None \<Rightarrow> ''electronics'' | Some c \<Rightarrow> c);
             limit = (case q_limit q of None \<Rightarrow> ''20'' | Some l \<Rightarrow> l);
             productLimit = min (parseInt_or limit 10) 50;
             forceRefresh = (q_force q = Some ''true'')
         in case getProducts now (products db) productLimit category maxAgeHours of
              Inl e \<Rightarrow> (ServiceUnavailable500, db)
            | Inr dbProducts \<Rightarrow>
                if length dbProducts > 0 \<and> \<not> forceRefresh
                then (Ok200 dbProducts (''PostgreSQL Cache ('' @ category @ '')''), db)
                else
                  (case createScrapingSession uuid now ''amazon-scraper'' category db of
                     Inl e \<Rightarrow> (ServiceUnavailable500, db)
                   | Inr (sessionId, db1) \<Rightarrow>
                       (case scrapeAndSave env refuses now sessionId productLimit category db1 of
                          Inr (scrapedProducts, db2) \<Rightarrow>
                            (Ok200 scrapedProducts ''Live Scraping - Just scraped'', db2)
                        | Inl (scrapingError, db2) \<Rightarrow>
                            (let db3 = updateScrapingSession now sessionId False 0
                                         (Some (message scrapingError)) db2
                             in if length dbProducts = 0
                                then (Ok200 (getFallbackProducts (clock env) productLimit)
                                        ''Static Fallback Data - All other sources failed'', db3)
                                else (Ok200 dbProducts
                                        ''PostgreSQL Cache (Fallback) - Scraping failed'', db3))))))"

section \<open>The invariant of the products table\<close>



section \<open>Sample values\<close>

text \<open>
  A row like the sample rows that \<^verbatim>\<open>initializeDatabase\<close> inserts, in a given category and
  scraped at a given time.
\<close>

definition sampleRow :: "string \<Rightarrow> timestamp \<Rightarrow> Row" where
  "sampleRow category t =
     new_row t
       \<lparr> db_asin = Some ''B08N5WRWNW'', db_rank = 1, db_title = ''Sample Product 1'',
         db_price = ''$29.99'', db_rating = ''4.5 out of 5 stars'',
         db_image_url = Some ''https://via.placeholder.com/300x200'',
         db_product_url = Some ''https://amazon.com/dp/B08N5WRWNW'',
         db_source = ''Sample Data'', db_category = category, db_scraped_at = t \<rparr>"

text \<open>
  A record as the HTTP-only tier makes it (no link, no identifier in its source label), the
  same with a price text of 53 characters, the same with a price text of 50 characters
  of which two are euro signs (54 bytes), the same with a title that holds the character
  \<open>U+0000\<close>, and an idle connection to a table of one row.
\<close>

definition httpRecord :: Product where
  "httpRecord = mkHttpProduct 0 1 ''Wireless Noise Cancelling Headphones''"

definition longPriceRecord :: Product where
  "longPriceRecord =
     (mkHttpProduct 0 2 ''USB-C Charging Cable 6ft'')
       \<lparr> price := ''$1,299.99 - $2,499.99 (price varies by configuration)'' \<rparr>"

definition euroPriceRecord :: Product where
  "euroPriceRecord =
     (mkHttpProduct 0 3 ''Stainless Steel Water Bottle'')
       \<lparr> price := [CHR 0xE2, CHR 0x82, CHR 0xAC] @ ''1,299.99 - ''
                  @ [CHR 0xE2, CHR 0x82, CHR 0xAC] @ ''2,499.99 (price varies with the size)'' \<rparr>"

definition nulTitleRecord :: Product where
  "nulTitleRecord = mkHttpProduct 0 4 (''Smart Plug Mini'' @ [CHR 0x00] @ '' with WiFi'')"

definition idleClient :: Client where
  "idleClient = \<lparr> stored = [sampleRow ''electronics'' 0], pending = None \<rparr>"


text \<open>
  A server that has no reason of its own to refuse a query; and a server that refuses a
  text value with the character \<open>U+0000\<close>, which the encoding \<^verbatim>\<open>UTF8\<close> of a database cannot
  hold.
\<close>

definition noRefusal :: refusal where
  "noRefusal = (\<lambda>k r. None)"

definition text_values :: "DatabaseProduct \<Rightarrow> string list" where
  "text_values r =
     (case db_asin r of None \<Rightarrow> [] | Some a \<Rightarrow> [a])
     @ [db_title r, db_price r, db_rating r]
     @ (case db_image_url r of None \<Rightarrow> [] | Some u \<Rightarrow> [u])
     @ (case db_product_url r of None \<Rightarrow> [] | Some u \<Rightarrow> [u])
     @ [db_source r, db_category r]"

definition refusesNul :: refusal where
  "refusesNul =
     (\<lambda>k r. if list_ex (\<lambda>t. CHR 0x00 \<in> set t) (text_values r)
            then Some (External (''invalid byte sequence for encoding '' @ [CHR 0x22]
                         @ ''UTF8'' @ [CHR 0x22] @ '': 0x00''))
            else None)"

text \<open>
  A product card: a node with a \<^verbatim>\<open>data-asin\<close> attribute whose title is found by the selector
  \<^verbatim>\<open>.p13n-sc-truncate\<close>; a document in which the generic \<^verbatim>\<open>[data-asin]\<close> search finds the
  given nodes; and a page that shows the given documents round after round, and an empty
  document after them.
\<close>

definition card :: "nat \<Rightarrow> string \<Rightarrow> string \<Rightarrow> Element" where
  "card i a t =
     \<lparr> node_id = i, attributes = [(''data-asin'', a)], texts = [(''.p13n-sc-truncate'', t)],
       props = [] \<rparr>"

definition viewOf :: "Element list \<Rightarrow> Dom" where
  "viewOf els =
     \<lparr> card_rows = None, data_asin_elements = els, bestseller_elements = [], page_clock = 0 \<rparr>"

definition pageOf :: "Dom list \<Rightarrow> Page" where
  "pageOf views =
     \<lparr> createPage = None, getScrapingUrl = None, goto = None, waitForSelector = None,
       evaluate = (\<lambda>k. if k < length views then Inr (views ! k) else Inr (viewOf [])),
       scroll = (\<lambda>k. None) \<rparr>"

text \<open>A page that shows the same document in every round.\<close>

definition steadyPage :: "Dom \<Rightarrow> Page" where
  "steadyPage view =
     \<lparr> createPage = None, getScrapingUrl = None, goto = None, waitForSelector = None,
       evaluate = (\<lambda>k. Inr view), scroll = (\<lambda>k. None) \<rparr>"




text \<open>
  Three titles outside ASCII: \<open>A\<close>, an en dash, \<open>Z1\<close> (4 code units in 6 bytes); \<open>Abc\<close>
  between two no-break spaces (3 code units once trimmed); and \<open>Caf\<close>, an e with acute
  accent, \<open>!\<close> (5 code units).
\<close>

definition dashTitle :: string where
  "dashTitle = ''A'' @ [CHR 0xE2, CHR 0x80, CHR 0x93] @ ''Z1''"

definition paddedTitle :: string where
  "paddedTitle = [CHR 0xC2, CHR 0xA0] @ ''Abc'' @ [CHR 0xC2, CHR 0xA0]"

definition accentTitle :: string where
  "accentTitle = ''Caf'' @ [CHR 0xC3, CHR 0xA9] @ ''!''"

text \<open>
  A document with a full card, a card whose \<^verbatim>\<open>data-asin\<close> is empty and that has no link, a
  card whose title has four characters, and three full cards with the titles outside
  ASCII.
\<close>

definition mixedView :: Dom where
  "mixedView =
     viewOf [card 1 ''B000000001'' ''Alpha Widget'', card 2 [] ''Beta Gadget'',
             card 3 ''B000000003'' ''Tiny'', card 4 ''B000000004'' dashTitle,
             card 5 ''B000000005'' paddedTitle, card 6 ''B000000006'' accentTitle]"

text \<open>
  A detail page that shows a title and no element with \<^verbatim>\<open>data-asin\<close>, at an address without
  a \<^verbatim>\<open>/dp/\<close> identifier, and the parse of that address.
\<close>

definition anvilUrl :: string where
  "anvilUrl = ''https://www.amazon.com/gp/product/anvil''"

definition anvilParse :: "string \<Rightarrow> URL option" where
  "anvilParse s =
     (if s = anvilUrl
      then Some \<lparr> hostname = ''www.amazon.com'', pathname = ''/gp/product/anvil'' \<rparr>
      else None)"

definition anvilPage :: DetailPage where
  "anvilPage =
     \<lparr> detail_createPage = None, detail_goto = None, detail_waitForTimeout = None,
       detail_evaluate =
         Inr \<lparr> document = \<lparr> node_id = 0, attributes = [],
                              texts = [(''#productTitle'', '' Acme Anvil 10kg '')], props = [] \<rparr>,
               feature_items = [], location_href = anvilUrl, detail_clock = 0 \<rparr> \<rparr>"

text \<open>
  An environment in which the browser works and the page shows one card without an
  identifier; and one in which the page shows one full card whose price text has 53
  characters. The HTTP tier is down in both.
\<close>

definition unidentifiedEnv :: ScraperEnv where
  "unidentifiedEnv =
     \<lparr> skipBrowser = False, page = steadyPage (viewOf [card 2 [] ''Beta Gadget'']),
       http = Inl (External ''HTTP 503''), clock = 0 \<rparr>"

definition pricedCard :: "nat \<Rightarrow> string \<Rightarrow> string \<Rightarrow> string \<Rightarrow> Element" where
  "pricedCard i a t pr =
     \<lparr> node_id = i, attributes = [(''data-asin'', a)],
       texts = [(''.p13n-sc-truncate'', t), (''.p13n-sc-price'', pr)], props = [] \<rparr>"

definition longPriceEnv :: ScraperEnv where
  "longPriceEnv =
     \<lparr> skipBrowser = False,
       page = steadyPage (viewOf [pricedCard 1 ''B000000001'' ''Alpha Widget''
                                    ''$1,299.99 - $2,499.99 (price varies by configuration)'']),
       http = Inl (External ''HTTP 503''), clock = 0 \<rparr>"

text \<open>The record that the category scraper makes of that card.\<close>

definition longPriceScraped :: Product where
  "longPriceScraped =
     \<lparr> rank = RankNum 1, title = ''Alpha Widget'',
       price = ''$1,299.99 - $2,499.99 (price varies by configuration)'',
       rating = ''No rating'', image' = None, link = None,
       source = ''Amazon Electronics Best Sellers'', scrapedAt = 0, asin = Some ''B000000001'',
       availability = None, reviewCount = None, brand = None, features = None \<rparr>"

text \<open>An empty database, a request for one product, and a session identifier.\<close>

definition emptyDatabase :: Database where
  "emptyDatabase = \<lparr> products = [], scraping_sessions = [] \<rparr>"

definition plainQuery :: ProductsQuery where
  "plainQuery =
     \<lparr> q_trending = Some ''amazon'', q_category = None, q_limit = Some ''1'', q_force = None \<rparr>"

definition sampleUuid :: string where
  "sampleUuid = ''3f2b8c1e-5d4a-4e6f-9a7b-0c1d2e3f4a5b''"

text \<open>A detail page whose evaluation fails, and a browser that has done nothing yet.\<close>

definition deadDetailPage :: DetailPage where
  "deadDetailPage =
     \<lparr> detail_createPage = None, detail_goto = None, detail_waitForTimeout = None,
       detail_evaluate = Inl (External ''Execution context was destroyed'') \<rparr>"

definition freshBrowser :: Browser where
  "freshBrowser = \<lparr> pagesCreated = 0, navigations = [] \<rparr>"

section \<open>Basic facts\<close>

lemma length_fallbackProducts: "length (fallbackProducts now) = 5"
  by (simp add: fallbackProducts_def)

lemma js_slice_from_zero:
  "js_slice xs 0 limit =
     (if 0 \<le> limit then take (nat limit) xs else take (nat (int (length xs) + limit)) xs)"
  by (auto simp: js_slice_def Let_def min_def max_def)

lemma includes_str_sublist: "includes_str s pat \<longleftrightarrow> sublist pat s"
  by (induction s) (auto simp: sublist_Cons_right)

text \<open>The equations that evaluate \<^verbatim>\<open>trim\<close> and \<^verbatim>\<open>length\<close> on a given string.\<close>

lemmas trim_eval =
  trim_def trimStart_def trimEnd_def strip_prefixes.simps whiteSpace_def js_length_def
  is_continuation_def

section \<open>Facts about the products table\<close>

lemma db_asin_new_row [simp]: "db_asin (new_row now v) = db_asin v"
  by (simp add: new_row_def DatabaseProduct.defs)

lemma updated_at_new_row [simp]: "updated_at (new_row now v) = now"
  by (simp add: new_row_def DatabaseProduct.defs)

lemma db_asin_overwrite [simp]: "db_asin (overwrite now v x) = db_asin x"
  by (simp add: overwrite_def)

lemma updated_at_overwrite [simp]: "updated_at (overwrite now v x) = now"
  by (simp add: overwrite_def)









lemma upsertAll_Nil [simp]: "upsertAll now category [] rows = rows"
  by (simp add: upsertAll_def)

lemma upsertAll_Cons [simp]:
  "upsertAll now category (p # ps) rows =
     upsertAll now category ps (upsertInto now (convertToDbProduct p category) rows)"
  by (simp add: upsertAll_def)




text \<open>The first failing query of a batch, by the positions of the batch.\<close>

lemma first_failure_None_iff:
  "first_failure refuses category ps k = None \<longleftrightarrow>
     (\<forall>i<length ps. insert_error refuses (k + i) (convertToDbProduct (ps ! i) category) = None)"
proof (induction ps arbitrary: k)
  case Nil
  then show ?case by simp
next
  case (Cons p ps)
  have "(\<forall>i<length (p # ps).
            insert_error refuses (k + i) (convertToDbProduct ((p # ps) ! i) category) = None)
        \<longleftrightarrow> insert_error refuses k (convertToDbProduct p category) = None
            \<and> (\<forall>i<length ps.
                 insert_error refuses (k + 1 + i) (convertToDbProduct (ps ! i) category) = None)"
    by (auto simp: All_less_Suc2)
  with Cons.IH [of "k + 1"] show ?case
    by (cases "insert_error refuses k (convertToDbProduct p category)") auto
qed

lemma first_failure_Some_iff:
  "first_failure refuses category ps k = Some e \<longleftrightarrow>
     (\<exists>i<length ps. insert_error refuses (k + i) (convertToDbProduct (ps ! i) category) = Some e
        \<and> (\<forall>j<i. insert_error refuses (k + j) (convertToDbProduct (ps ! j) category) = None))"
proof (induction ps arbitrary: k)
  case Nil
  then show ?case by simp
next
  case (Cons p ps)
  show ?case
  proof (cases "insert_error refuses k (convertToDbProduct p category)")
    case (Some e')
    have "(\<exists>i<length (p # ps).
             insert_error refuses (k + i) (convertToDbProduct ((p # ps) ! i) category) = Some e
             \<and> (\<forall>j<i. insert_error refuses (k + j) (convertToDbProduct ((p # ps) ! j) category)
                        = None))
          \<longleftrightarrow> e' = e"
    proof
      assume "\<exists>i<length (p # ps).
             insert_error refuses (k + i) (convertToDbProduct ((p # ps) ! i) category) = Some e
             \<and> (\<forall>j<i. insert_error refuses (k + j) (convertToDbProduct ((p # ps) ! j) category)
                        = None)"
      then obtain i where i: "i < length (p # ps)"
        "insert_error refuses (k + i) (convertToDbProduct ((p # ps) ! i) category) = Some e"
        "\<forall>j<i. insert_error refuses (k + j) (convertToDbProduct ((p # ps) ! j) category) = None"
        by blast
      have "i = 0"
      proof (rule ccontr)
        assume "i \<noteq> 0"
        then have "0 < i" by simp
        with i(3) have "insert_error refuses (k + 0) (convertToDbProduct ((p # ps) ! 0) category) = None"
          by blast
        with Some show False by simp
      qed
      with i(2) Some show "e' = e" by simp
    next
      assume "e' = e"
      with Some have "insert_error refuses (k + 0) (convertToDbProduct ((p # ps) ! 0) category) = Some e"
        by simp
      then show "\<exists>i<length (p # ps).
             insert_error refuses (k + i) (convertToDbProduct ((p # ps) ! i) category) = Some e
             \<and> (\<forall>j<i. insert_error refuses (k + j) (convertToDbProduct ((p # ps) ! j) category)
                        = None)"
        by (intro exI [of _ 0]) simp
    qed
    with Some show ?thesis by simp
  next
    case None
    have "(\<exists>i<length (p # ps).
             insert_error refuses (k + i) (convertToDbProduct ((p # ps) ! i) category) = Some e
             \<and> (\<forall>j<i. insert_error refuses (k + j) (convertToDbProduct ((p # ps) ! j) category)
                        = None))
          \<longleftrightarrow> (\<exists>i<length ps.
             insert_error refuses (k + 1 + i) (convertToDbProduct (ps ! i) category) = Some e
             \<and> (\<forall>j<i. insert_error refuses (k + 1 + j) (convertToDbProduct (ps ! j) category)
                        = None))"
      (is "?L \<longleftrightarrow> ?R")
    proof
      assume ?L
      then obtain i where i: "i < length (p # ps)"
        "insert_error refuses (k + i) (convertToDbProduct ((p # ps) ! i) category) = Some e"
        "\<forall>j<i. insert_error refuses (k + j) (convertToDbProduct ((p # ps) ! j) category) = None"
        by blast
      from i(2) None have "i \<noteq> 0" by (cases i) auto
      then obtain i' where i': "i = Suc i'" by (cases i) auto
      have "\<forall>j<i'. insert_error refuses (k + 1 + j) (convertToDbProduct (ps ! j) category) = None"
      proof (intro allI impI)
        fix j assume "j < i'"
        then have "Suc j < i" using i' by simp
        with i(3) have "insert_error refuses (k + Suc j) (convertToDbProduct ((p # ps) ! Suc j) category) = None"
          by blast
        then show "insert_error refuses (k + 1 + j) (convertToDbProduct (ps ! j) category) = None"
          by simp
      qed
      with i i' show ?R by (intro exI [of _ i']) simp
    next
      assume ?R
      then obtain i where i: "i < length ps"
        "insert_error refuses (k + 1 + i) (convertToDbProduct (ps ! i) category) = Some e"
        "\<forall>j<i. insert_error refuses (k + 1 + j) (convertToDbProduct (ps ! j) category) = None"
        by blast
      have "\<forall>j<Suc i. insert_error refuses (k + j) (convertToDbProduct ((p # ps) ! j) category) = None"
      proof (intro allI impI)
        fix j assume j: "j < Suc i"
        show "insert_error refuses (k + j) (convertToDbProduct ((p # ps) ! j) category) = None"
        proof (cases j)
          case 0
          with None show ?thesis by simp
        next
          case (Suc j')
          with j have "j' < i" by simp
          with i(3) Suc show ?thesis by simp
        qed
      qed
      with i show ?L by (intro exI [of _ "Suc i"]) simp
    qed
    with None Cons.IH [of "k + 1"] show ?thesis by simp
  qed
qed

text \<open>The loop inside a transaction, by the first failing query.\<close>

lemma query_UPSERT_in_txn:
  "pending c = Some w \<Longrightarrow>
     query_UPSERT refuses k now r c =
       (case insert_error refuses k r of
          Some e \<Rightarrow> Inl e
        | None \<Rightarrow> Inr (c\<lparr> pending := Some (upsertInto now r w) \<rparr>))"
  by (simp add: query_UPSERT_def upsertRow_def split: option.splits)

lemma saveLoop_fails:
  "pending c = Some w \<Longrightarrow> first_failure refuses category ps k = Some e \<Longrightarrow>
     \<exists>w'. saveLoop refuses now category ps c k = Inl (e, c\<lparr> pending := Some w' \<rparr>)"
proof (induction ps arbitrary: c w k)
  case Nil
  then show ?case by simp
next
  case (Cons p ps)
  show ?case
  proof (cases "insert_error refuses k (convertToDbProduct p category)")
    case (Some e')
    with Cons.prems have "saveLoop refuses now category (p # ps) c k = Inl (e, c)"
      by (simp add: query_UPSERT_in_txn)
    moreover from Cons.prems(1) have "c\<lparr> pending := Some w \<rparr> = c" by simp
    ultimately have "saveLoop refuses now category (p # ps) c k = Inl (e, c\<lparr> pending := Some w \<rparr>)"
      by simp
    then show ?thesis by (rule exI)
  next
    case None
    let ?c = "c\<lparr> pending := Some (upsertInto now (convertToDbProduct p category) w) \<rparr>"
    from None Cons.prems(2) have "first_failure refuses category ps (k + 1) = Some e" by simp
    from Cons.IH [of ?c _ "k + 1", OF _ this]
    obtain w' where "saveLoop refuses now category ps ?c (k + 1) = Inl (e, ?c\<lparr> pending := Some w' \<rparr>)"
      by auto
    with None Cons.prems(1) show ?thesis by (auto simp: query_UPSERT_in_txn)
  qed
qed

lemma saveLoop_succeeds:
  "pending c = Some w \<Longrightarrow> first_failure refuses category ps k = None \<Longrightarrow>
     saveLoop refuses now category ps c k =
       Inr (k + length ps, c\<lparr> pending := Some (upsertAll now category ps w) \<rparr>)"
proof (induction ps arbitrary: c w k)
  case Nil
  then show ?case by simp
next
  case (Cons p ps)
  from Cons.prems(2) have ok: "insert_error refuses k (convertToDbProduct p category) = None"
    and rest: "first_failure refuses category ps (k + 1) = None"
    by (auto split: option.splits)
  let ?c = "c\<lparr> pending := Some (upsertInto now (convertToDbProduct p category) w) \<rparr>"
  from Cons.IH [of ?c _ "k + 1", OF _ rest]
  have "saveLoop refuses now category ps ?c (k + 1) =
          Inr (k + 1 + length ps,
               ?c\<lparr> pending := Some (upsertAll now category ps
                                      (upsertInto now (convertToDbProduct p category) w)) \<rparr>)"
    by simp
  with ok Cons.prems(1) show ?case by (simp add: query_UPSERT_in_txn)
qed

lemma client_eq:
  "pending c = None \<Longrightarrow> c\<lparr> pending := None \<rparr> = (c :: Client)"
  by (cases c) simp

text \<open>
  \<^verbatim>\<open>saveProducts\<close> on an idle connection: the error of the first failing query and the
  connection as it was, or the size of the batch and the table with every record upserted.
\<close>

lemma saveProducts_result:
  assumes "pending c = None"
  shows "saveProducts refuses now batch category c =
           (case first_failure refuses category batch 0 of
              Some e \<Rightarrow> (Inl e, c)
            | None \<Rightarrow> (Inr (int (length batch)),
                        c\<lparr> stored := upsertAll now category batch (stored c) \<rparr>))"
proof (cases "first_failure refuses category batch 0")
  case None
  have b: "pending (query_BEGIN c) = Some (stored c)" by (simp add: query_BEGIN_def)
  from saveLoop_succeeds [OF b None, of now]
  have "saveLoop refuses now category batch (query_BEGIN c) 0 =
          Inr (length batch,
               (query_BEGIN c)\<lparr> pending := Some (upsertAll now category batch (stored c)) \<rparr>)"
    by simp
  with None assms show ?thesis
    by (cases c) (simp add: saveProducts_def query_BEGIN_def query_COMMIT_def)
next
  case (Some e)
  have b: "pending (query_BEGIN c) = Some (stored c)" by (simp add: query_BEGIN_def)
  from saveLoop_fails [OF b Some, of now]
  obtain w' where
    "saveLoop refuses now category batch (query_BEGIN c) 0 =
       Inl (e, (query_BEGIN c)\<lparr> pending := Some w' \<rparr>)" by blast
  with Some assms show ?thesis
    by (cases c) (simp add: saveProducts_def query_BEGIN_def query_ROLLBACK_def)
qed











text \<open>The sample records at the table.\<close>

lemma httpRecord_row:
  "convertToDbProduct httpRecord ''electronics'' =
     \<lparr> db_asin = None, db_rank = 1, db_title = ''Wireless Noise Cancelling Headphones'',
       db_price = ''Price not available'', db_rating = ''N/A'', db_image_url = None,
       db_product_url = None, db_source = ''Amazon Best Sellers (HTTP)'',
       db_category = ''electronics'', db_scraped_at = 0 \<rparr>"
  by (simp add: convertToDbProduct_def httpRecord_def mkHttpProduct_def present_def Let_def)

lemma httpRecord_ok: "varchar_error (convertToDbProduct httpRecord ''electronics'') = None"
  by (simp add: httpRecord_row varchar_error_def too_long_def is_continuation_def)

lemma httpRecord_stored:
  "stored_values (convertToDbProduct httpRecord ''electronics'')
     = convertToDbProduct httpRecord ''electronics''"
  by (simp add: httpRecord_row stored_values_def take_chars_def is_continuation_def)

lemma longPriceRecord_fails:
  "varchar_error (convertToDbProduct longPriceRecord ''electronics'')
     = Some (External ''value too long for type character varying(50)'')"
  by (simp add: convertToDbProduct_def longPriceRecord_def mkHttpProduct_def varchar_error_def
        too_long_def present_def is_continuation_def Let_def)

lemma euroPriceRecord_ok:
  "varchar_error (convertToDbProduct euroPriceRecord ''electronics'') = None"
  by (simp add: convertToDbProduct_def euroPriceRecord_def mkHttpProduct_def varchar_error_def
        too_long_def present_def is_continuation_def Let_def)




lemma db_title_new_row [simp]: "db_title (new_row now (stored_values r)) = db_title r"
  by (simp add: new_row_def stored_values_def DatabaseProduct.defs)

lemma upsertInto_null_asin:
  "db_asin r = None \<Longrightarrow> upsertInto now r rows = rows @ [new_row now (stored_values r)]"
  by (simp add: upsertInto_def stored_values_def Let_def)

lemma httpRecord_accepted:
  "insert_error noRefusal k (convertToDbProduct httpRecord ''electronics'') = None"
  by (simp add: insert_error_def noRefusal_def httpRecord_ok)

lemma httpRecord_upsert:
  "upsertInto now (convertToDbProduct httpRecord ''electronics'') rows
     = rows @ [new_row now (stored_values (convertToDbProduct httpRecord ''electronics''))]"
  by (rule upsertInto_null_asin) (simp add: httpRecord_row)

lemma euroPriceRecord_upsert:
  "upsertInto now (convertToDbProduct euroPriceRecord ''electronics'') rows
     = rows @ [new_row now (stored_values (convertToDbProduct euroPriceRecord ''electronics''))]"
  by (rule upsertInto_null_asin)
     (simp add: convertToDbProduct_def euroPriceRecord_def mkHttpProduct_def present_def Let_def)

section \<open>The batch is one transaction (C5)\<close>

text \<open>
  Claim C5: \<^verbatim>\<open>saveProducts\<close> on a batch is all or nothing, whatever makes a query fail (a
  value that a column cannot hold, or any refusal of the server). On an idle connection
  the call is determined by the first query that fails. When the query of the record at
  position \<open>k\<close> fails with \<open>e\<close> and the queries before it did not fail, the call throws
  \<open>e\<close> and the connection is exactly as before: the stored table is unchanged, so no record
  of the batch is in it, and no transaction is open. So when the query of any record fails,
  the call throws and the table is unchanged. When no query fails, the call returns the
  size of the batch and the stored table is the old one with every record of the batch
  upserted, in the order of the batch.
\<close>

theorem saveProducts_all_or_nothing:
  assumes "pending c = None"
  shows "saveProducts refuses now batch category c =
           (case first_failure refuses category batch 0 of
              Some e \<Rightarrow> (Inl e, c)
            | None \<Rightarrow> (Inr (int (length batch)),
                        c\<lparr> stored := upsertAll now category batch (stored c) \<rparr>))
       \<and> (\<forall>k e. k < length batch
                 \<and> insert_error refuses k (convertToDbProduct (batch ! k) category) = Some e
                 \<and> (\<forall>j<k. insert_error refuses j (convertToDbProduct (batch ! j) category) = None)
              \<longrightarrow> saveProducts refuses now batch category c = (Inl e, c))
       \<and> ((\<exists>k<length batch.
              insert_error refuses k (convertToDbProduct (batch ! k) category) \<noteq> None)
              \<longrightarrow> (\<exists>e. saveProducts refuses now batch category c = (Inl e, c)))
       \<and> ((\<forall>k<length batch.
              insert_error refuses k (convertToDbProduct (batch ! k) category) = None)
              \<longrightarrow> saveProducts refuses now batch category c =
                     (Inr (int (length batch)),
                      c\<lparr> stored := upsertAll now category batch (stored c) \<rparr>))"
proof -
  note r = saveProducts_result [OF assms, of refuses now batch category]
  have a: "\<forall>k e. k < length batch
                 \<and> insert_error refuses k (convertToDbProduct (batch ! k) category) = Some e
                 \<and> (\<forall>j<k. insert_error refuses j (convertToDbProduct (batch ! j) category) = None)
              \<longrightarrow> saveProducts refuses now batch category c = (Inl e, c)"
  proof (intro allI impI)
    fix k e
    assume "k < length batch
              \<and> insert_error refuses k (convertToDbProduct (batch ! k) category) = Some e
              \<and> (\<forall>j<k. insert_error refuses j (convertToDbProduct (batch ! j) category) = None)"
    then have "first_failure refuses category batch 0 = Some e"
      by (subst first_failure_Some_iff) auto
    with r show "saveProducts refuses now batch category c = (Inl e, c)" by simp
  qed
  have b: "(\<exists>k<length batch.
              insert_error refuses k (convertToDbProduct (batch ! k) category) \<noteq> None)
              \<longrightarrow> (\<exists>e. saveProducts refuses now batch category c = (Inl e, c))"
  proof
    assume "\<exists>k<length batch.
              insert_error refuses k (convertToDbProduct (batch ! k) category) \<noteq> None"
    then have "first_failure refuses category batch 0 \<noteq> None"
      by (auto simp: first_failure_None_iff)
    then obtain e where "first_failure refuses category batch 0 = Some e" by auto
    with r show "\<exists>e. saveProducts refuses now batch category c = (Inl e, c)" by simp
  qed
  have d: "(\<forall>k<length batch.
              insert_error refuses k (convertToDbProduct (batch ! k) category) = None)
              \<longrightarrow> saveProducts refuses now batch category c =
                     (Inr (int (length batch)),
                      c\<lparr> stored := upsertAll now category batch (stored c) \<rparr>)"
  proof
    assume "\<forall>k<length batch.
              insert_error refuses k (convertToDbProduct (batch ! k) category) = None"
    then have "first_failure refuses category batch 0 = None"
      by (simp add: first_failure_None_iff)
    with r show "saveProducts refuses now batch category c =
                     (Inr (int (length batch)),
                      c\<lparr> stored := upsertAll now category batch (stored c) \<rparr>)" by simp
  qed
  from r a b d show ?thesis by blast
qed

theorem saveProducts_all_or_nothing_witness:
  "pending idleClient = None
   \<and> saveProducts noRefusal 5 [httpRecord, longPriceRecord] ''electronics'' idleClient
       = (Inl (External ''value too long for type character varying(50)''), idleClient)
   \<and> saveProducts refusesNul 5 [httpRecord, nulTitleRecord] ''electronics'' idleClient
       = (Inl (External (''invalid byte sequence for encoding '' @ [CHR 0x22]
                  @ ''UTF8'' @ [CHR 0x22] @ '': 0x00'')), idleClient)
   \<and> fst (saveProducts noRefusal 5 [httpRecord, euroPriceRecord] ''electronics'' idleClient)
       = Inr 2
   \<and> map db_title
       (stored (snd (saveProducts noRefusal 5 [httpRecord, euroPriceRecord] ''electronics''
                       idleClient)))
       = [''Sample Product 1'', ''Wireless Noise Cancelling Headphones'',
          ''Stainless Steel Water Bottle'']"
proof -
  have h: "pending idleClient = None" by (simp add: idleClient_def)
  have long: "insert_error noRefusal 1 (convertToDbProduct longPriceRecord ''electronics'')
                = Some (External ''value too long for type character varying(50)'')"
    by (simp add: insert_error_def noRefusal_def longPriceRecord_fails)
  have euro: "insert_error noRefusal 1 (convertToDbProduct euroPriceRecord ''electronics'') = None"
    by (simp add: insert_error_def noRefusal_def euroPriceRecord_ok)
  let ?nul = "External (''invalid byte sequence for encoding '' @ [CHR 0x22]
                  @ ''UTF8'' @ [CHR 0x22] @ '': 0x00'')"
  have nul0: "insert_error refusesNul 0 (convertToDbProduct httpRecord ''electronics'') = None"
    by (simp add: insert_error_def refusesNul_def text_values_def httpRecord_ok)
       (simp add: httpRecord_row)
  have nul1: "insert_error refusesNul 1 (convertToDbProduct nulTitleRecord ''electronics'')
                 = Some ?nul"
    by (simp add: insert_error_def refusesNul_def text_values_def convertToDbProduct_def
          nulTitleRecord_def mkHttpProduct_def present_def Let_def)
  from saveProducts_all_or_nothing
         [where refuses = noRefusal and now = 5 and batch = "[httpRecord, longPriceRecord]"
            and category = "''electronics''", OF h, THEN conjunct2, THEN conjunct1, rule_format,
          of 1 "External ''value too long for type character varying(50)''"]
       long httpRecord_accepted [of 0]
  have a: "saveProducts noRefusal 5 [httpRecord, longPriceRecord] ''electronics'' idleClient
       = (Inl (External ''value too long for type character varying(50)''), idleClient)"
    by simp
  from saveProducts_all_or_nothing
         [where refuses = refusesNul and now = 5 and batch = "[httpRecord, nulTitleRecord]"
            and category = "''electronics''", OF h, THEN conjunct2, THEN conjunct1, rule_format,
          of 1 ?nul]
       nul0 nul1
  have b: "saveProducts refusesNul 5 [httpRecord, nulTitleRecord] ''electronics'' idleClient
       = (Inl ?nul, idleClient)"
    by simp
  have "\<forall>k<length [httpRecord, euroPriceRecord].
          insert_error noRefusal k (convertToDbProduct ([httpRecord, euroPriceRecord] ! k)
            ''electronics'') = None"
    using httpRecord_accepted [of 0] euro by (simp add: All_less_Suc2)
  from saveProducts_all_or_nothing
         [where refuses = noRefusal and now = 5 and batch = "[httpRecord, euroPriceRecord]"
            and category = "''electronics''", OF h, THEN conjunct2, THEN conjunct2,
          THEN conjunct2, THEN mp, OF this]
  have d: "saveProducts noRefusal 5 [httpRecord, euroPriceRecord] ''electronics'' idleClient
       = (Inr 2, idleClient\<lparr> stored := upsertAll 5 ''electronics'' [httpRecord, euroPriceRecord]
                                         (stored idleClient) \<rparr>)"
    by simp
  have titles: "map db_title (upsertAll 5 ''electronics'' [httpRecord, euroPriceRecord]
                                (stored idleClient))
       = [''Sample Product 1'', ''Wireless Noise Cancelling Headphones'',
          ''Stainless Steel Water Bottle'']"
    by (simp add: httpRecord_upsert euroPriceRecord_upsert)
       (simp add: idleClient_def sampleRow_def new_row_def DatabaseProduct.defs
          convertToDbProduct_def httpRecord_def euroPriceRecord_def mkHttpProduct_def)
  from h a b d titles show ?thesis by simp
qed

section \<open>Upsert by identifier (C4)\<close>




section \<open>Facts about the scrolling loop of the enhanced scraper\<close>


















lemmas view_eval =
  enhancedExtractView_def viewOf_def productElements_def push_missing_def
  List.map_filter_simps enumerate_eq_zip enhancedExtractElement_def card_def
  titleSelectors_def enhancedPriceSelectors_def trim_eval Let_def or_null_def

lemma empty_view: "enhancedExtractView (viewOf []) = []"
  by (simp add: view_eval)








section \<open>Scroll and collect (C2)\<close>




section \<open>Facts about the extraction of one element\<close>

lemma map_filter_member:
  "p \<in> set (List.map_filter f xs) \<Longrightarrow> \<exists>x\<in>set xs. f x = Some p"
  by (auto simp: List.map_filter_def)

lemma scraperExtractElement_accepts:
  assumes "scraperExtractElement clk i el = Some p"
  shows "5 \<le> js_length (title p) \<and> (\<exists>a. asin p = Some a \<and> a \<noteq> [])"
  using assms
  by (auto simp: scraperExtractElement_def Let_def split: if_splits option.splits)

lemma enhancedExtractElement_accepts:
  assumes "enhancedExtractElement clk i el = Some p"
  shows "5 \<le> js_length (title p)"
  using assms
  by (auto simp: enhancedExtractElement_def Let_def split: if_splits option.splits)

lemma scraperExtractElement_drops:
  assumes "\<not> truthy (map_of (attributes el) ''data-asin'')"
    and "case or_null (map_of (props el) (''a'', ''href'')) of
           None \<Rightarrow> True | Some u \<Rightarrow> match_dp u = None"
  shows "scraperExtractElement clk i el = None"
  using assms
  by (auto simp: scraperExtractElement_def Let_def split: if_splits option.splits)

lemma js_length_Nil [simp]: "js_length [] = 0"
  by (simp add: js_length_def)

lemma enhancedExtractElement_keeps:
  "(enhancedExtractElement clk i el = None) \<longleftrightarrow>
     js_length (case first_text el titleSelectors of None \<Rightarrow> [] | Some t \<Rightarrow> t) < 5"
  by (auto simp: enhancedExtractElement_def Let_def split: if_splits option.splits)

lemma scrapeProductDetails_without_asin:
  assumes "isValidAmazonUrl parse url"
    and "detail_createPage pg = None" and "detail_goto pg = None"
    and "detail_waitForTimeout pg = None" and "detail_evaluate pg = Inr dd"
    and "5 \<le> js_length (d_title (extractDetails dd))" and "d_asin (extractDetails dd) = []"
  shows "\<exists>p. fst (scrapeProductDetails parse pg url browser) = Inr p
           \<and> asin p = None \<and> title p = d_title (extractDetails dd)
           \<and> source p = ''Amazon Product Detail''"
proof -
  from assms(6) have "d_title (extractDetails dd) \<noteq> []" by auto
  with assms show ?thesis
    by (auto simp: scrapeProductDetails_def Let_def present_def)
qed

lemmas scraper_view_eval =
  scraperExtractView_def viewOf_def productElements_def push_missing_def
  List.map_filter_simps enumerate_eq_zip scraperExtractElement_def card_def
  titleSelectors_def priceSelectors_def ratingSelectors_def trim_eval Let_def
  or_null_def is_asin_char_def

lemma mixedView_scraper:
  "map title (scraperExtractView mixedView) = [''Alpha Widget'', accentTitle]"
  by (simp add: mixedView_def dashTitle_def paddedTitle_def accentTitle_def scraper_view_eval)

lemma mixedView_enhanced:
  "map title (enhancedExtractView mixedView) = [''Alpha Widget'', ''Beta Gadget'', accentTitle]"
  by (simp add: mixedView_def dashTitle_def paddedTitle_def accentTitle_def view_eval)

lemma anvil_valid: "isValidAmazonUrl anvilParse anvilUrl"
  by (simp add: isValidAmazonUrl_def anvilParse_def validDomains_def anvilUrl_def)

lemma anvil_details:
  "d_title (extractDetails (projr (detail_evaluate anvilPage))) = ''Acme Anvil 10kg''
   \<and> d_asin (extractDetails (projr (detail_evaluate anvilPage))) = []"
  by (simp add: anvilPage_def extractDetails_def Let_def trim_eval anvilUrl_def)

text \<open>The titles outside ASCII: their code units, and their bytes.\<close>

lemma sample_title_lengths:
  "js_length dashTitle = 4 \<and> length dashTitle = 6
   \<and> js_length (trim paddedTitle) = 3 \<and> length paddedTitle = 7
   \<and> js_length accentTitle = 5 \<and> length accentTitle = 6"
  by (simp add: dashTitle_def paddedTitle_def accentTitle_def trim_eval)

section \<open>Accepted records (C9)\<close>

text \<open>
  Claim C9, as the code has it: in both list-mode extractions every accepted record has a
  title of at least 5 characters, counted as \<^verbatim>\<open>title.length\<close> counts them (UTF-16 code units
  of the trimmed text). In the category scraper every accepted record carries a
  non-empty identifier, and an element with neither a non-empty \<^verbatim>\<open>data-asin\<close> nor a link
  that matches \<^verbatim>\<open>/dp/\<close> and ten characters of \<open>A-Z0-9\<close> is dropped. The enhanced scraper
  drops an element only for its title; the identifier is only written into the source
  label. Detail-mode extraction returns the record of a page with a title of at least 5
  characters also when no identifier is found.
\<close>

theorem list_mode_acceptance:
  "(p \<in> set (scraperExtractView doc) \<longrightarrow>
      5 \<le> js_length (title p) \<and> (\<exists>a. asin p = Some a \<and> a \<noteq> []))
   \<and> (p \<in> set (enhancedExtractView doc) \<longrightarrow> 5 \<le> js_length (title p))
   \<and> (\<not> truthy (map_of (attributes el) ''data-asin'')
        \<and> (case or_null (map_of (props el) (''a'', ''href'')) of
              None \<Rightarrow> True | Some u \<Rightarrow> match_dp u = None) \<longrightarrow>
      scraperExtractElement clk i el = None)
   \<and> ((enhancedExtractElement clk i el = None) \<longleftrightarrow>
        js_length (case first_text el titleSelectors of None \<Rightarrow> [] | Some t \<Rightarrow> t) < 5)
   \<and> (isValidAmazonUrl parse url
        \<and> detail_createPage pg = None \<and> detail_goto pg = None
        \<and> detail_waitForTimeout pg = None \<and> detail_evaluate pg = Inr dd
        \<and> 5 \<le> js_length (d_title (extractDetails dd)) \<and> d_asin (extractDetails dd) = [] \<longrightarrow>
      (\<exists>q. fst (scrapeProductDetails parse pg url browser) = Inr q
           \<and> asin q = None \<and> title q = d_title (extractDetails dd)
           \<and> source q = ''Amazon Product Detail''))"
proof -
  have a: "p \<in> set (scraperExtractView doc) \<longrightarrow>
      5 \<le> js_length (title p) \<and> (\<exists>a. asin p = Some a \<and> a \<noteq> [])"
  proof
    assume "p \<in> set (scraperExtractView doc)"
    then obtain x where "(case x of (i, el) \<Rightarrow> scraperExtractElement (page_clock doc) i el) = Some p"
      unfolding scraperExtractView_def using map_filter_member by fastforce
    then show "5 \<le> js_length (title p) \<and> (\<exists>a. asin p = Some a \<and> a \<noteq> [])"
      by (cases x) (simp add: scraperExtractElement_accepts)
  qed
  have b: "p \<in> set (enhancedExtractView doc) \<longrightarrow> 5 \<le> js_length (title p)"
  proof
    assume "p \<in> set (enhancedExtractView doc)"
    then obtain x where "(case x of (i, el) \<Rightarrow> enhancedExtractElement (page_clock doc) i el) = Some p"
      unfolding enhancedExtractView_def using map_filter_member by fastforce
    then show "5 \<le> js_length (title p)"
      by (cases x) (simp add: enhancedExtractElement_accepts)
  qed
  from a b scraperExtractElement_drops [of el clk i] enhancedExtractElement_keeps [of clk i el]
    scrapeProductDetails_without_asin [of parse url pg dd browser]
  show ?thesis by blast
qed

theorem list_mode_acceptance_witness:
  "map title (scraperExtractView mixedView) = [''Alpha Widget'', accentTitle]
   \<and> list_all (\<lambda>p. 5 \<le> js_length (title p) \<and> asin p \<noteq> None) (scraperExtractView mixedView)
   \<and> list_all (\<lambda>p. 5 \<le> js_length (title p)) (enhancedExtractView mixedView)
   \<and> scraperExtractElement 0 1 (card 2 [] ''Beta Gadget'') = None
   \<and> enhancedExtractElement 0 1 (card 2 [] ''Beta Gadget'') \<noteq> None
   \<and> enhancedExtractElement 0 3 (card 4 ''B000000004'' dashTitle) = None
   \<and> enhancedExtractElement 0 4 (card 5 ''B000000005'' paddedTitle) = None
   \<and> enhancedExtractElement 0 5 (card 6 ''B000000006'' accentTitle) \<noteq> None
   \<and> map_sum id asin (fst (scrapeProductDetails anvilParse anvilPage anvilUrl freshBrowser))
       = Inr None"
proof -
  let ?dd = "projr (detail_evaluate anvilPage)"
  let ?title = "\<lambda>el. case first_text el titleSelectors of None \<Rightarrow> [] | Some t \<Rightarrow> t"
  have ev: "detail_evaluate anvilPage = Inr ?dd" by (simp add: anvilPage_def)
  have pg: "detail_createPage anvilPage = None" "detail_goto anvilPage = None"
    "detail_waitForTimeout anvilPage = None" by (simp_all add: anvilPage_def)
  have noid: "\<not> truthy (map_of (attributes (card 2 [] ''Beta Gadget'')) ''data-asin'')"
    "(case or_null (map_of (props (card 2 [] ''Beta Gadget'')) (''a'', ''href'')) of
        None \<Rightarrow> True | Some u \<Rightarrow> match_dp u = None)"
    by (simp_all add: card_def or_null_def)
  have long: "\<not> js_length (?title (card 2 [] ''Beta Gadget'')) < 5"
    by (simp add: card_def titleSelectors_def trim_eval)
  have dash: "js_length (?title (card 4 ''B000000004'' dashTitle)) < 5"
    by (simp add: card_def titleSelectors_def dashTitle_def trim_eval)
  have padded: "js_length (?title (card 5 ''B000000005'' paddedTitle)) < 5"
    by (simp add: card_def titleSelectors_def paddedTitle_def trim_eval)
  have accent: "\<not> js_length (?title (card 6 ''B000000006'' accentTitle)) < 5"
    by (simp add: card_def titleSelectors_def accentTitle_def trim_eval)
  have all: "5 \<le> js_length (title p) \<and> asin p \<noteq> None" if "p \<in> set (scraperExtractView mixedView)" for p
    using list_mode_acceptance [THEN conjunct1, of p mixedView] that by auto
  have l: "list_all (\<lambda>p. 5 \<le> js_length (title p) \<and> asin p \<noteq> None) (scraperExtractView mixedView)"
    using all by (simp add: list_all_iff)
  have all': "5 \<le> js_length (title p)" if "p \<in> set (enhancedExtractView mixedView)" for p
    using list_mode_acceptance [THEN conjunct2, THEN conjunct1, of p mixedView] that by auto
  have l': "list_all (\<lambda>p. 5 \<le> js_length (title p)) (enhancedExtractView mixedView)"
    using all' by (simp add: list_all_iff)
  note keeps = list_mode_acceptance [THEN conjunct2, THEN conjunct2, THEN conjunct2, THEN conjunct1]
  from keeps [of 0 3 "card 4 ''B000000004'' dashTitle"] dash
  have d1: "enhancedExtractElement 0 3 (card 4 ''B000000004'' dashTitle) = None" by simp
  from keeps [of 0 4 "card 5 ''B000000005'' paddedTitle"] padded
  have d2: "enhancedExtractElement 0 4 (card 5 ''B000000005'' paddedTitle) = None" by simp
  from keeps [of 0 5 "card 6 ''B000000006'' accentTitle"] accent
  have d3: "enhancedExtractElement 0 5 (card 6 ''B000000006'' accentTitle) \<noteq> None" by simp
  from list_mode_acceptance
         [of undefined mixedView "card 2 [] ''Beta Gadget''" 0 1 anvilParse anvilUrl anvilPage
             ?dd freshBrowser]
       noid long anvil_valid ev pg anvil_details
  have "scraperExtractElement 0 1 (card 2 [] ''Beta Gadget'') = None"
    and "enhancedExtractElement 0 1 (card 2 [] ''Beta Gadget'') \<noteq> None"
    and "\<exists>q. fst (scrapeProductDetails anvilParse anvilPage anvilUrl freshBrowser) = Inr q
           \<and> asin q = None"
    by (auto simp: js_length_def is_continuation_def)
  with l l' d1 d2 d3 mixedView_scraper show ?thesis by auto
qed

text \<open>
  Claim C9 as stated fails for the enhanced scraper: an element with an empty
  \<^verbatim>\<open>data-asin\<close> and no link, so with no derivable identifier, is accepted, with an empty
  identifier in its source label.
\<close>

theorem enhanced_keeps_unidentified_counterexample:
  "map_of (attributes (card 2 [] ''Beta Gadget'')) ''data-asin'' = Some []
   \<and> props (card 2 [] ''Beta Gadget'') = []
   \<and> map source (enhancedExtractView (viewOf [card 2 [] ''Beta Gadget'']))
       = [''Amazon Best Sellers (Electronics) - ASIN: '']"
  by (simp add: enhancedExtractView_def viewOf_def productElements_def push_missing_def
        List.map_filter_simps enumerate_eq_zip enhancedExtractElement_def card_def
        titleSelectors_def enhancedPriceSelectors_def trim_eval Let_def or_null_def)

section \<open>Facts about the fallback chain and the products endpoint\<close>

lemmas page_eval =
  pageOf_def steadyPage_def scraperLoop.simps maxScrollAttempts_def targetProducts_def
  js_slice_def

lemma unidentified_browser_tier:
  "scrapeTrendingProducts (page unidentifiedEnv) 5 ''electronics'' = Inr []"
  by (simp add: scrapeTrendingProducts_def unidentifiedEnv_def page_eval scraper_view_eval)


lemma longPrice_browser_tier:
  "scrapeTrendingProducts (page longPriceEnv) 1 ''electronics'' = Inr [longPriceScraped]"
  by (simp add: scrapeTrendingProducts_def longPriceEnv_def pricedCard_def longPriceScraped_def
        page_eval scraper_view_eval toUpperCase_def)


lemma scrapeWithHttpOnly_nonempty:
  "scrapeWithHttpOnly now response limit = Inr ps \<Longrightarrow> ps \<noteq> []"
  by (auto simp: scrapeWithHttpOnly_def Let_def split: sum.splits if_splits)

lemma getFallbackProducts_nonempty: "1 \<le> limit \<Longrightarrow> getFallbackProducts now limit \<noteq> []"
  by (auto simp: getFallbackProducts_def js_slice_from_zero fallbackProducts_def)

text \<open>
  The chain never throws, and for a limit of at least 1 its result is empty only when the
  browser tier itself returned an empty list.
\<close>

lemma getTrendingProducts_total:
  "\<exists>ps. getTrendingProducts env limit category = Inr ps"
  by (auto simp: getTrendingProducts_def split: sum.splits)

lemma getTrendingProducts_empty_only_from_browser:
  assumes "1 \<le> limit" and "getTrendingProducts env limit category = Inr []"
  shows "\<not> skipBrowser env \<and> scrapeTrendingProducts (page env) limit category = Inr []"
  using assms scrapeWithHttpOnly_nonempty [of "clock env" "http env" limit]
    getFallbackProducts_nonempty [of limit "clock env"]
  by (auto simp: getTrendingProducts_def split: sum.splits if_splits)

lemma longPrice_chain:
  "getTrendingProducts longPriceEnv 1 ''electronics'' = Inr [longPriceScraped]"
  by (simp add: getTrendingProducts_def longPrice_browser_tier) (simp add: longPriceEnv_def)

lemma longPriceScraped_fails:
  "first_failure noRefusal ''electronics'' [longPriceScraped] 0
     = Some (External ''value too long for type character varying(50)'')"
  by (simp add: insert_error_def noRefusal_def convertToDbProduct_def longPriceScraped_def
        varchar_error_def too_long_def present_def is_continuation_def Let_def)

text \<open>The inner try block when the save fails: the error reaches the catch, the table is as before.\<close>

lemma scrapeAndSave_save_failure:
  assumes "getTrendingProducts env productLimit category = Inr scraped" and "scraped \<noteq> []"
    and "first_failure refuses category scraped 0 = Some e"
  shows "scrapeAndSave env refuses now sessionId productLimit category db = Inl (e, db)"
proof -
  have "pending \<lparr> stored = products db, pending = None \<rparr> = None" by simp
  from saveProducts_result [OF this, of refuses now scraped category] assms(3)
  have "saveProducts refuses now scraped category \<lparr> stored = products db, pending = None \<rparr>
       = (Inl e, \<lparr> stored = products db, pending = None \<rparr>)" by simp
  with assms(1,2) show ?thesis by (simp add: scrapeAndSave_def)
qed

lemma plain_limit: "min (parseInt_or ''1'' 10) 50 = 1"
  by (simp add: parseInt_or_def parseInt_def trimStart_def strip_prefixes.simps whiteSpace_def
        digit_of_def Let_def)

lemma empty_getProducts: "getProducts now [] 1 category maxAgeHours = Inr []"
  by (simp add: getProducts_def)

lemma plain_session:
  "createScrapingSession sampleUuid now ''amazon-scraper'' ''electronics'' emptyDatabase
     = Inr (sampleUuid,
            emptyDatabase\<lparr> scraping_sessions :=
              [\<lparr> session_id = sampleUuid, s_source = ''amazon-scraper'',
                 s_category = ''electronics'', products_found = 0, success = False,
                 error_message = None, started_at = now, completed_at = None \<rparr>] \<rparr>)"
  by (simp add: createScrapingSession_def emptyDatabase_def sampleUuid_def too_long_def
        take_chars_def is_continuation_def)


section \<open>The fallback chain can return nothing (C1)\<close>

text \<open>
  Claim C1 at a failing input. The browser works, the page shows one card whose
  \<^verbatim>\<open>data-asin\<close> is empty and that has no link; every round of \<^verbatim>\<open>scrapeTrendingProducts\<close>
  drops it, the loop ends after its 6 rounds with no record, and the method returns the
  empty list instead of throwing. \<^verbatim>\<open>getTrendingProducts(5, 'amazon', 'electronics')\<close> then
  returns that empty list; the HTTP tier and the static fallback are never tried. (That the
  chain never throws, and is empty for \<open>limit \<ge> 1\<close> only in this way, are the two lemmas
  \<open>getTrendingProducts_total\<close> and \<open>getTrendingProducts_empty_only_from_browser\<close>.)
\<close>

theorem getTrendingProducts_empty_result:
  "scrapeTrendingProducts (page unidentifiedEnv) 5 ''electronics'' = Inr []
   \<and> getTrendingProducts unidentifiedEnv 5 ''electronics'' = Inr []"
  by (simp add: getTrendingProducts_def unidentified_browser_tier)
     (simp add: unidentifiedEnv_def)


section \<open>A failed save discards the scraped records (C6)\<close>

text \<open>
  Claim C6 at a failing input. \<^verbatim>\<open>GET /products?trending=amazon&limit=1\<close> on an empty table; live
  extraction succeeds with one record whose price text has 53 characters; the column
  \<^verbatim>\<open>price VARCHAR(50)\<close> rejects it, \<^verbatim>\<open>saveProducts\<close> throws inside the \<^verbatim>\<open>try\<close> of the scrape,
  and \<^verbatim>\<open>catch (scrapingError)\<close> answers with the static fallback records: the scraped record
  is not in the response, and nothing was stored.
\<close>

theorem productsRoute_discards_scraped:
  "getTrendingProducts longPriceEnv 1 ''electronics'' = Inr [longPriceScraped]
   \<and> fst (productsRoute longPriceEnv noRefusal sampleUuid 0 24 plainQuery emptyDatabase)
       = Ok200 (getFallbackProducts 0 1) ''Static Fallback Data - All other sources failed''
   \<and> longPriceScraped \<notin> set (getFallbackProducts 0 1)
   \<and> products (snd (productsRoute longPriceEnv noRefusal sampleUuid 0 24 plainQuery
                        emptyDatabase)) = []"
proof -
  let ?db1 = "emptyDatabase\<lparr> scraping_sessions :=
              [\<lparr> session_id = sampleUuid, s_source = ''amazon-scraper'',
                 s_category = ''electronics'', products_found = 0, success = False,
                 error_message = None, started_at = 0, completed_at = None \<rparr>] \<rparr>"
  let ?e = "External ''value too long for type character varying(50)''"
  from scrapeAndSave_save_failure [OF longPrice_chain _ longPriceScraped_fails, of 0 sampleUuid ?db1]
  have s: "scrapeAndSave longPriceEnv noRefusal 0 sampleUuid 1 ''electronics'' ?db1
             = Inl (?e, ?db1)"
    by simp
  have q: "truthy (q_trending plainQuery)" "q_trending plainQuery = Some ''amazon''"
    "q_category plainQuery = None" "q_limit plainQuery = Some ''1''" "q_force plainQuery = None"
    by (simp_all add: plainQuery_def)
  have e0: "products emptyDatabase = []" by (simp add: emptyDatabase_def)
  have c0: "clock longPriceEnv = 0" by (simp add: longPriceEnv_def)
  have r: "productsRoute longPriceEnv noRefusal sampleUuid 0 24 plainQuery emptyDatabase
      = (Ok200 (getFallbackProducts 0 1) ''Static Fallback Data - All other sources failed'',
         updateScrapingSession 0 sampleUuid False 0 (Some (message ?e)) ?db1)"
    by (simp add: productsRoute_def q plain_limit e0 empty_getProducts plain_session s c0
          Let_def)
  have n: "longPriceScraped \<notin> set (getFallbackProducts 0 1)"
    by (simp add: getFallbackProducts_def js_slice_def fallbackProducts_def mkFallback_def
          longPriceScraped_def)
  from r n longPrice_chain show ?thesis
    by (simp add: updateScrapingSession_def emptyDatabase_def)
qed

section \<open>The static fallback (C10)\<close>

text \<open>
  Claim C10, as the code has it: \<^verbatim>\<open>getFallbackProducts(limit)\<close> is total and returns a prefix
  of the fixed five-record sample list, in its order: the first \<open>min(limit, 5)\<close> records when
  \<open>limit \<ge> 0\<close>, and for a negative \<open>limit\<close> the first \<open>max(5 + limit, 0)\<close> records, because
  \<^verbatim>\<open>slice(0, limit)\<close> counts a negative end from the end of the array.
\<close>

theorem getFallbackProducts_slice:
  "getFallbackProducts now limit =
     (if 0 \<le> limit then take (nat limit) (fallbackProducts now)
      else take (nat (5 + limit)) (fallbackProducts now))
   \<and> int (length (getFallbackProducts now limit)) =
     (if 0 \<le> limit then min limit 5 else max (5 + limit) 0)"
  by (auto simp: getFallbackProducts_def js_slice_from_zero length_fallbackProducts)

theorem getFallbackProducts_slice_witness:
  "getFallbackProducts 0 7 = fallbackProducts 0
   \<and> length (getFallbackProducts 0 7) = 5 \<and> length (getFallbackProducts 0 0) = 0"
  using getFallbackProducts_slice [of 0 7] getFallbackProducts_slice [of 0 0]
  by (simp add: length_fallbackProducts)

text \<open>
  Claim C10 as stated fails: with \<open>limit = -2\<close> the claim promises \<open>min(max(-2, 0), 5) = 0\<close>
  records, and the code returns three.
\<close>

theorem getFallbackProducts_negative_counterexample:
  "length (getFallbackProducts 0 (- 2)) = 3 \<and> min (max (- 2) 0) 5 = (0::int)"
  by (simp add: getFallbackProducts_def js_slice_def fallbackProducts_def)

section \<open>Retry with backoff (C3)\<close>

text \<open>
  Claim C3: with \<^verbatim>\<open>maxRetries = 3\<close> and \<^verbatim>\<open>retryDelay = 2000\<close>, \<^verbatim>\<open>retryOperation\<close> invokes the
  operation at most three times; the first success is returned and nothing is invoked
  after it; after three failures the last error is thrown; the only waits are 2000 ms
  between attempts 1 and 2 and 4000 ms between attempts 2 and 3, which is
  \<open>retryDelay * 2^(n-1)\<close> after attempt \<open>n\<close>; there is no wait before the first attempt
  and none after the last.
\<close>

theorem retryOperation_three_attempts:
  "retryOperation operation s =
     (case operation s of
        (Inr v, s1) \<Rightarrow> (Inr v, s1, [Invoke 1])
      | (Inl e1, s1) \<Rightarrow>
          (case operation s1 of
             (Inr v, s2) \<Rightarrow> (Inr v, s2, [Invoke 1, Delay 2000, Invoke 2])
           | (Inl e2, s2) \<Rightarrow>
               (case operation s2 of
                  (Inr v, s3) \<Rightarrow>
                    (Inr v, s3, [Invoke 1, Delay 2000, Invoke 2, Delay 4000, Invoke 3])
                | (Inl e3, s3) \<Rightarrow>
                    (Inl (Some e3), s3,
                     [Invoke 1, Delay 2000, Invoke 2, Delay 4000, Invoke 3]))))
   \<and> length (filter is_invoke (snd (snd (retryOperation operation s)))) \<le> 3
   \<and> [retryDelay * 2 ^ (1 - 1), retryDelay * 2 ^ (2 - 1)] = [2000, 4000]"
  by (simp add: retryOperation_def retryLoop.simps maxRetries_def retryDelay_def
        split: prod.splits sum.splits)

theorem retryOperation_three_attempts_witness:
  "retryOperation (\<lambda>n::nat. (if n < 2 then Inl (External ''timeout'') else Inr n, n + 1)) 0
     = (Inr 2, 3, [Invoke 1, Delay 2000, Invoke 2, Delay 4000, Invoke 3])
   \<and> retryOperation (\<lambda>n::nat. (Inl (External ''timeout'') :: error + nat, n + 1)) 0
     = (Inl (Some (External ''timeout'')), 3,
        [Invoke 1, Delay 2000, Invoke 2, Delay 4000, Invoke 3])"
  using retryOperation_three_attempts
          [of "\<lambda>n::nat. (if n < 2 then Inl (External ''timeout'') else Inr n, n + 1)" 0]
        retryOperation_three_attempts
          [of "\<lambda>n::nat. (Inl (External ''timeout'') :: error + nat, n + 1)" 0]
  by simp

section \<open>Freshness (C7)\<close>

text \<open>
  Claim C7: \<^verbatim>\<open>hasFreshData\<close> answers \<open>hasFresh = true\<close> exactly when some row of the category
  has an age (time since \<^verbatim>\<open>scraped_at\<close>) strictly below \<open>maxAgeHours\<close>, and counts those
  rows; when every row of the category is at least \<open>maxAgeHours\<close> old (exactly at the
  threshold included), and so also when the category has no rows, the answer is
  \<open>hasFresh = false\<close>, \<open>count = 0\<close>, and no \<open>lastScraped\<close>.
\<close>

theorem hasFreshData_strict_window:
  "(hasFresh (hasFreshData now rows category maxAgeHours) \<longleftrightarrow>
      (\<exists>r\<in>set rows. db_category r = category \<and> age now r < hours maxAgeHours))
   \<and> count (hasFreshData now rows category maxAgeHours) =
       length (filter (\<lambda>r. db_category r = category \<and> age now r < hours maxAgeHours) rows)
   \<and> ((\<forall>r\<in>set rows. db_category r = category \<longrightarrow> hours maxAgeHours \<le> age now r) \<longrightarrow>
        hasFreshData now rows category maxAgeHours =
          \<lparr> hasFresh = False, count = 0, lastScraped = None \<rparr>)"
proof -
  have same: "(\<lambda>r. db_category r = category \<and> in_window now maxAgeHours r)
      = (\<lambda>r. db_category r = category \<and> age now r < hours maxAgeHours)"
    by (auto simp: in_window_def age_def hours_def)
  have a: "hasFresh (hasFreshData now rows category maxAgeHours) \<longleftrightarrow>
      (\<exists>r\<in>set rows. db_category r = category \<and> age now r < hours maxAgeHours)"
    by (auto simp: hasFreshData_def Let_def same filter_empty_conv)
  have b: "count (hasFreshData now rows category maxAgeHours) =
       length (filter (\<lambda>r. db_category r = category \<and> age now r < hours maxAgeHours) rows)"
    by (simp add: hasFreshData_def Let_def same)
  have c: "(\<forall>r\<in>set rows. db_category r = category \<longrightarrow> hours maxAgeHours \<le> age now r) \<longrightarrow>
        hasFreshData now rows category maxAgeHours =
          \<lparr> hasFresh = False, count = 0, lastScraped = None \<rparr>"
    by (auto simp: hasFreshData_def Let_def same filter_empty_conv)
  from a b c show ?thesis by blast
qed

theorem hasFreshData_strict_window_witness:
  "hasFreshData 360000000
       [sampleRow ''electronics'' 277200000, sampleRow ''electronics'' 273600000]
       ''electronics'' 24
     \<noteq> \<lparr> hasFresh = False, count = 0, lastScraped = None \<rparr>
   \<and> count (hasFreshData 360000000
       [sampleRow ''electronics'' 277200000, sampleRow ''electronics'' 273600000]
       ''electronics'' 24) = 1
   \<and> hasFreshData 360000000 [sampleRow ''electronics'' 273600000] ''electronics'' 24
     = \<lparr> hasFresh = False, count = 0, lastScraped = None \<rparr>
   \<and> hasFreshData 360000000 [] ''electronics'' 24
     = \<lparr> hasFresh = False, count = 0, lastScraped = None \<rparr>"
proof -
  have a: "age 360000000 (sampleRow ''electronics'' 277200000) < hours 24"
    by (simp add: age_def hours_def sampleRow_def new_row_def DatabaseProduct.defs)
  have b: "age 360000000 (sampleRow ''electronics'' 273600000) = hours 24"
    by (simp add: age_def hours_def sampleRow_def new_row_def DatabaseProduct.defs)
  have c: "db_category (sampleRow ''electronics'' t) = ''electronics''" for t
    by (simp add: sampleRow_def new_row_def DatabaseProduct.defs)
  have w1: "hasFresh (hasFreshData 360000000
       [sampleRow ''electronics'' 277200000, sampleRow ''electronics'' 273600000]
       ''electronics'' 24)"
    and w2: "count (hasFreshData 360000000
       [sampleRow ''electronics'' 277200000, sampleRow ''electronics'' 273600000]
       ''electronics'' 24) = 1"
    using hasFreshData_strict_window
            [of 360000000
                "[sampleRow ''electronics'' 277200000, sampleRow ''electronics'' 273600000]"
                "''electronics''" 24] a b c
    by simp_all
  have w3: "hasFreshData 360000000 [sampleRow ''electronics'' 273600000] ''electronics'' 24
     = \<lparr> hasFresh = False, count = 0, lastScraped = None \<rparr>"
    using hasFreshData_strict_window
            [of 360000000 "[sampleRow ''electronics'' 273600000]" "''electronics''" 24] b c
    by simp
  have w4: "hasFreshData 360000000 [] ''electronics'' 24
     = \<lparr> hasFresh = False, count = 0, lastScraped = None \<rparr>"
    using hasFreshData_strict_window [of 360000000 "[]" "''electronics''" 24]
    by simp
  from w1 w2 w3 w4 show ?thesis by auto
qed

section \<open>The guard of detail extraction (C8)\<close>

text \<open>
  Claim C8: \<^verbatim>\<open>isValidAmazonUrl(url)\<close> is true exactly when the URL parses, its host name is
  one of the listed domains or \<open>www.\<close> followed by one, and its path contains \<open>/dp/\<close>,
  \<open>/gp/product/\<close> or \<open>/product/\<close>; for every other URL \<^verbatim>\<open>scrapeProductDetails\<close> throws the
  invalid-URL error and leaves the browser as it was: no page created, no navigation.
\<close>

theorem isValidAmazonUrl_guard:
  "(isValidAmazonUrl parse url \<longleftrightarrow>
      (\<exists>u. parse url = Some u
         \<and> (\<exists>d\<in>set validDomains. hostname u = d \<or> hostname u = ''www.'' @ d)
         \<and> (sublist ''/dp/'' (pathname u) \<or> sublist ''/gp/product/'' (pathname u)
              \<or> sublist ''/product/'' (pathname u))))
   \<and> (\<not> isValidAmazonUrl parse url \<longrightarrow>
        scrapeProductDetails parse pg url browser = (Inl InvalidAmazonUrl, browser))"
proof -
  have a: "isValidAmazonUrl parse url \<longleftrightarrow>
      (\<exists>u. parse url = Some u
         \<and> (\<exists>d\<in>set validDomains. hostname u = d \<or> hostname u = ''www.'' @ d)
         \<and> (sublist ''/dp/'' (pathname u) \<or> sublist ''/gp/product/'' (pathname u)
              \<or> sublist ''/product/'' (pathname u)))"
    by (cases "parse url")
       (simp_all add: isValidAmazonUrl_def Let_def list_ex_iff includes_str_sublist)
  have b: "\<not> isValidAmazonUrl parse url \<longrightarrow>
        scrapeProductDetails parse pg url browser = (Inl InvalidAmazonUrl, browser)"
    by (simp add: scrapeProductDetails_def)
  from a b show ?thesis by blast
qed

theorem isValidAmazonUrl_guard_witness:
  "\<not> isValidAmazonUrl
       (\<lambda>s. Some \<lparr> hostname = ''example.com'', pathname = ''/not-a-product'' \<rparr>)
       ''https://example.com/not-a-product''
   \<and> scrapeProductDetails
       (\<lambda>s. Some \<lparr> hostname = ''example.com'', pathname = ''/not-a-product'' \<rparr>)
       deadDetailPage ''https://example.com/not-a-product'' freshBrowser
     = (Inl InvalidAmazonUrl, freshBrowser)"
proof -
  have h: "\<not> isValidAmazonUrl
       (\<lambda>s. Some \<lparr> hostname = ''example.com'', pathname = ''/not-a-product'' \<rparr>)
       ''https://example.com/not-a-product''"
    by (simp add: isValidAmazonUrl_def validDomains_def)
  with isValidAmazonUrl_guard
         [of "\<lambda>s. Some \<lparr> hostname = ''example.com'', pathname = ''/not-a-product'' \<rparr>"
             "''https://example.com/not-a-product''" deadDetailPage freshBrowser]
  show ?thesis by blast
qed

end
